theory Spec2Isabelle
  imports Complex_Main
begin

section \<open>JavaScript values\<close>

text \<open>
  The services are JavaScript. Numbers are modelled as exact reals (rounding of IEEE
  doubles is outside the model), strings as \<open>string\<close>. A property that may be missing
  (\<open>undefined\<close> or \<open>null\<close>) is an \<open>option\<close>. The operator \<open>a || d\<close> yields \<open>d\<close> when
  \<open>a\<close> is falsy: a missing value, the number \<open>0\<close> or the empty string.
\<close>

definition truthy_str :: "string option \<Rightarrow> bool" where
  "truthy_str v = (case v of None \<Rightarrow> False | Some s \<Rightarrow> s \<noteq> [])"

definition truthy_int :: "int option \<Rightarrow> bool" where
  "truthy_int v = (case v of None \<Rightarrow> False | Some n \<Rightarrow> n \<noteq> 0)"

definition or_num :: "real option \<Rightarrow> real \<Rightarrow> real" where
  "or_num v d = (case v of None \<Rightarrow> d | Some x \<Rightarrow> if x = 0 then d else x)"

definition or_str :: "string option \<Rightarrow> string \<Rightarrow> string" where
  "or_str v d = (case v of None \<Rightarrow> d | Some s \<Rightarrow> if s = [] then d else s)"

text \<open>
  A value whose shape the code does not fix (a property of an external response, a
  payload that is only passed on) is a JSON value; \<open>truthy\<close> is JavaScript's
  conversion to a boolean.
\<close>

datatype json =
  JNull
| JBool bool
| JNum real
| JStr string
| JArr "json list"
| JObj "(string \<times> json) list"

fun truthy :: "json \<Rightarrow> bool" where
  "truthy JNull = False"
| "truthy (JBool b) = b"
| "truthy (JNum x) = (x \<noteq> 0)"
| "truthy (JStr s) = (s \<noteq> [])"
| "truthy (JArr xs) = True"
| "truthy (JObj kvs) = True"

text \<open>
  A \<open>string\<close> holds the UTF-8 encoding of a JavaScript string, so a character
  beyond ASCII is two or three bytes. \<open>String.prototype.trim\<close> removes the leading and
  trailing white space and line terminators of ECMAScript: U+0009 to U+000D and
  U+0020 (one byte each), U+00A0 (two bytes), and U+1680, U+2000 to U+200A, U+2028,
  U+2029, U+202F, U+205F, U+3000 and U+FEFF (three bytes each).
\<close>

definition is_ws :: "char \<Rightarrow> bool" where
  "is_ws a = (a \<in> set [CHR 0x09, CHR 0x0A, CHR 0x0B, CHR 0x0C, CHR 0x0D, CHR 0x20])"

definition is_ws2 :: "char \<Rightarrow> char \<Rightarrow> bool" where
  "is_ws2 a b = (a = CHR 0xC2 \<and> b = CHR 0xA0)"

definition is_ws3 :: "char \<Rightarrow> char \<Rightarrow> char \<Rightarrow> bool" where
  "is_ws3 a b c =
     ((a = CHR 0xE1 \<and> b = CHR 0x9A \<and> c = CHR 0x80)
      \<or> (a = CHR 0xE2 \<and> b = CHR 0x80
           \<and> c \<in> set [CHR 0x80, CHR 0x81, CHR 0x82, CHR 0x83, CHR 0x84, CHR 0x85, CHR 0x86,
                        CHR 0x87, CHR 0x88, CHR 0x89, CHR 0x8A, CHR 0xA8, CHR 0xA9, CHR 0xAF])
      \<or> (a = CHR 0xE2 \<and> b = CHR 0x81 \<and> c = CHR 0x9F)
      \<or> (a = CHR 0xE3 \<and> b = CHR 0x80 \<and> c = CHR 0x80)
      \<or> (a = CHR 0xEF \<and> b = CHR 0xBB \<and> c = CHR 0xBF))"

text \<open>
  \<open>strip\<close> removes from the front of a string every character that one of the three
  tests accepts, read as one, two or three bytes. At the end of a string the bytes of a
  character come in the opposite order.
\<close>

fun strip ::
  "(char \<Rightarrow> bool) \<Rightarrow> (char \<Rightarrow> char \<Rightarrow> bool) \<Rightarrow> (char \<Rightarrow> char \<Rightarrow> char \<Rightarrow> bool)
    \<Rightarrow> string \<Rightarrow> string" where
  "strip p1 p2 p3 (a # b # c # s) =
     (if p1 a then strip p1 p2 p3 (b # c # s)
      else if p2 a b then strip p1 p2 p3 (c # s)
      else if p3 a b c then strip p1 p2 p3 s
      else a # b # c # s)"
| "strip p1 p2 p3 [a, b] =
     (if p1 a then strip p1 p2 p3 [b] else if p2 a b then [] else [a, b])"
| "strip p1 p2 p3 [a] = (if p1 a then [] else [a])"
| "strip p1 p2 p3 [] = []"

definition trimStart :: "string \<Rightarrow> string" where
  "trimStart s = strip is_ws is_ws2 is_ws3 s"

definition trimEnd :: "string \<Rightarrow> string" where
  "trimEnd s = rev (strip is_ws (\<lambda>b a. is_ws2 a b) (\<lambda>c b a. is_ws3 a b c) (rev s))"

definition trim :: "string \<Rightarrow> string" where
  "trim s = trimEnd (trimStart s)"

section \<open>The detection adapter (gptZeroService.js)\<close>

subsection \<open>Data\<close>

text \<open>
  A segment of a transcript. Its \<open>text\<close> property is any value: the loop tests it for
  truthiness before calling \<open>.trim()\<close>, which raises a TypeError on a truthy value
  that is not a string.
\<close>

record segment =
  seg_start :: real
  seg_end :: real
  seg_text :: json
  speaker :: string
  seg_confidence :: real

text \<open>
  The \<open>ai_detection\<close> object attached to a segment. The four shapes the code builds
  differ in which properties they carry, so every property is optional.
\<close>

record ai_detection =
  error :: "string option"
  details :: "json option"
  ai_probability :: "real option"
  prediction :: "string option"
  confidence :: "real option"
  metadata :: "json option"

text \<open>\<open>{...segment, ai_detection: d}\<close>: the segment's own properties and one more.\<close>

record enhanced_segment = segment +
  ai_detection :: ai_detection

definition enhance :: "segment \<Rightarrow> ai_detection \<Rightarrow> enhanced_segment" where
  "enhance seg d = segment.extend seg (enhanced_segment.fields d)"

text \<open>
  One document of the detector's response, and the outcome of the HTTP request:
  the client rejects with an error (its message, and the body of the response, \<open>JNull\<close>
  when there is none), or resolves with the documents of the response (none when
  \<open>data\<close> or \<open>data.documents\<close> is missing).
\<close>

record document =
  doc_ai_probability :: "real option"
  doc_prediction :: "string option"
  doc_confidence :: "real option"
  doc_metadata :: json

datatype http_outcome =
  HttpError string json
| HttpOk "document list"

text \<open>
  The object \<open>detectAIProbability\<close> returns: \<open>{success: true, aiProbability,
  prediction, confidence, metadata}\<close> or \<open>{success: false, error, details}\<close>.
\<close>

datatype detect_result =
  DetectOk real string real json
| DetectFail string json

definition or_json :: "json \<Rightarrow> json \<Rightarrow> json" where
  "or_json v d = (if truthy v then v else d)"

subsection \<open>detectAIProbability\<close>

definition detectAIProbability :: "(string \<Rightarrow> http_outcome) \<Rightarrow> string \<Rightarrow> detect_result" where
  "detectAIProbability post txt =
     (case post txt of
        HttpOk docs \<Rightarrow>
          (case docs of
             result # _ \<Rightarrow>
               DetectOk (or_num (doc_ai_probability result) 0)
                        (or_str (doc_prediction result) ''unknown'')
                        (or_num (doc_confidence result) 0)
                        (or_json (doc_metadata result) (JObj []))
           | [] \<Rightarrow> DetectFail ''Invalid GPTZero response format'' JNull)
      | HttpError msg data \<Rightarrow> DetectFail msg (or_json data JNull))"

subsection \<open>processTranscriptionSegments\<close>

text \<open>
  The body of the loop for one segment: the \<open>try\<close> block and its \<open>catch\<close>. The only
  statement of the \<open>try\<close> block that can raise is \<open>segment.text.trim()\<close> on a value
  without that method; \<open>detectAIProbability\<close> catches its own errors.
\<close>

definition empty_detection :: ai_detection where
  "empty_detection =
     \<lparr>error = None, details = None, ai_probability = Some 0,
      prediction = Some ''empty'', confidence = Some 0, metadata = None\<rparr>"

definition error_detection :: "string \<Rightarrow> ai_detection" where
  "error_detection msg =
     \<lparr>error = Some msg, details = None, ai_probability = Some 0,
      prediction = Some ''error'', confidence = Some 0, metadata = None\<rparr>"

definition detection_of :: "detect_result \<Rightarrow> ai_detection" where
  "detection_of aiResult =
     (case aiResult of
        DetectOk p pr c m \<Rightarrow>
          \<lparr>error = None, details = None, ai_probability = Some p,
           prediction = Some pr, confidence = Some c, metadata = Some m\<rparr>
      | DetectFail e d \<Rightarrow>
          \<lparr>error = Some e, details = Some d, ai_probability = None,
           prediction = None, confidence = None, metadata = None\<rparr>)"

definition process_segment :: "(string \<Rightarrow> http_outcome) \<Rightarrow> segment \<Rightarrow> enhanced_segment" where
  "process_segment post seg =
     (if truthy (seg_text seg)
      then (case seg_text seg of
              JStr s \<Rightarrow>
                if length (trim s) > 0
                then enhance seg (detection_of (detectAIProbability post (trim s)))
                else enhance seg empty_detection
            | _ \<Rightarrow> enhance seg (error_detection ''segment.text.trim is not a function''))
      else enhance seg empty_detection)"

text \<open>
  The \<open>for ... of\<close> loop. \<open>results\<close> and \<open>processedCount\<close> are the loop's two
  variables; both branches of the body push one result and increment the counter. The
  request of the segment at position \<open>i\<close> has the outcome \<open>post i\<close>.
\<close>

fun segment_loop ::
  "(nat \<Rightarrow> string \<Rightarrow> http_outcome) \<Rightarrow> segment list \<Rightarrow> enhanced_segment list \<Rightarrow> nat
    \<Rightarrow> enhanced_segment list \<times> nat" where
  "segment_loop post [] results processedCount = (results, processedCount)"
| "segment_loop post (seg # rest) results processedCount =
     segment_loop post rest
       (results @ [process_segment (post processedCount) seg]) (Suc processedCount)"

definition validResults :: "enhanced_segment list \<Rightarrow> enhanced_segment list" where
  "validResults results = filter (\<lambda>r. \<not> truthy_str (error (ai_detection r))) results"

definition overallAIProbability :: "enhanced_segment list \<Rightarrow> real" where
  "overallAIProbability results =
     (let valid = validResults results in
      if length valid > 0
      then foldl (\<lambda>sum r. sum + or_num (ai_probability (ai_detection r)) 0) 0 valid
             / real (length valid)
      else 0)"

text \<open>
  The \<open>segments\<close> property of a transcription: an array, whose elements are
  segments, or a value that is no array (a missing property is \<open>NoValue\<close>).
\<close>

datatype non_array =
  NoValue
| BoolValue bool
| NumValue real
| StrValue string
| ObjValue "(string \<times> json) list"

fun json_of_non_array :: "non_array \<Rightarrow> json" where
  "json_of_non_array NoValue = JNull"
| "json_of_non_array (BoolValue b) = JBool b"
| "json_of_non_array (NumValue x) = JNum x"
| "json_of_non_array (StrValue s) = JStr s"
| "json_of_non_array (ObjValue kvs) = JObj kvs"

datatype js_segments = SegmentsArray "segment list" | SegmentsValue non_array

record transcript =
  transcript_text :: string
  segments :: js_segments
  speakers :: json
  wordTimestamps :: json
  transcript_metadata :: json

datatype fanout_result =
  FanoutOk (fan_segments: "enhanced_segment list") (overall_ai_probability: real)
           (processed_segments: nat) (total_segments: nat)
| FanoutFail string js_segments

text \<open>
  The result is \<open>Inr\<close> of the returned object, or \<open>Inl\<close> of the message of an error that
  leaves the function: the outer \<open>catch\<close> reads \<open>transcription.segments\<close> again, which
  raises when the transcription itself is missing.
\<close>

definition processTranscriptionSegments ::
  "(nat \<Rightarrow> string \<Rightarrow> http_outcome) \<Rightarrow> transcript option \<Rightarrow> string + fanout_result" where
  "processTranscriptionSegments post tr =
     (case tr of
        None \<Rightarrow> Inl ''Cannot read properties of undefined (reading 'segments')''
      | Some t \<Rightarrow>
          (case segments t of
             SegmentsArray segs \<Rightarrow>
               (let (results, processedCount) = segment_loop post segs [] 0;
                    totalSegments = length segs
                in Inr (FanoutOk results (overallAIProbability results)
                          processedCount totalSegments))
           | SegmentsValue v \<Rightarrow>
               Inr (FanoutFail ''Invalid transcription format''
                      (if truthy (json_of_non_array v) then SegmentsValue v
                       else SegmentsArray []))))"

section \<open>The record store (models/database.js)\<close>

text \<open>
  One row of the table \<open>analysis_results\<close>. A column that is \<open>NULL\<close> is \<open>None\<close>. The two
  time stamps are written by the storage engine (\<open>CURRENT_TIMESTAMP\<close>).
\<close>

record analysis_row =
  row_id :: string
  youtube_url :: string
  status :: string
  created_at :: string
  updated_at :: string
  screenshot_path :: "string option"
  audio_path :: "string option"
  transcription :: "string option"
  ai_probabilities :: "string option"
  error_message :: "string option"
  processing_time :: "int option"

text \<open>
  What a run does to the outside, in order: the statements the storage engine executed
  or refused, and the calls to the external stages.
\<close>

datatype event =
  DbInsert string string
| DbUpdate string string
| DbGet string
| DbError string
| CallDemo
| CallCapture
| CallTranscode
| CallTranscribe
| CallDetect

text \<open>
  The state outside the service: the table, the outcomes the storage engine will give
  to the coming statements (\<open>Some msg\<close>: it reports the error \<open>msg\<close>; \<open>None\<close>, or no entry
  left: it executes the statement), its clock, and the events so far.
\<close>

record world =
  store :: "string \<rightharpoonup> analysis_row"
  db_outcomes :: "string option list"
  current_timestamp :: string
  trace :: "event list"

text \<open>
  An asynchronous function: it changes the world and resolves with a value (\<open>Inr\<close>) or
  rejects with an error, of which only the message matters (\<open>Inl\<close>). \<open>io_bind\<close> is
  \<open>await\<close> followed by the rest of the block.
\<close>

type_synonym 'a io = "world \<Rightarrow> (string + 'a) \<times> world"

definition io_return :: "'a \<Rightarrow> 'a io" where
  "io_return x w = (Inr x, w)"

definition io_throw :: "string \<Rightarrow> 'a io" where
  "io_throw msg w = (Inl msg, w)"

definition io_bind :: "'a io \<Rightarrow> ('a \<Rightarrow> 'b io) \<Rightarrow> 'b io" where
  "io_bind m f w = (case m w of (Inl e, w') \<Rightarrow> (Inl e, w') | (Inr x, w') \<Rightarrow> f x w')"

definition log_event :: "event \<Rightarrow> unit io" where
  "log_event ev w = (Inr (), w\<lparr>trace := trace w @ [ev]\<rparr>)"

definition next_outcome :: "world \<Rightarrow> string option \<times> world" where
  "next_outcome w =
     (case db_outcomes w of
        [] \<Rightarrow> (None, w)
      | outcome # rest \<Rightarrow> (outcome, w\<lparr>db_outcomes := rest\<rparr>))"

definition db_error :: "string \<Rightarrow> 'a io" where
  "db_error msg w = (Inl msg, w\<lparr>trace := trace w @ [DbError msg]\<rparr>)"

definition new_row :: "string \<Rightarrow> string \<Rightarrow> string \<Rightarrow> analysis_row" where
  "new_row i youtubeUrl now =
     \<lparr>row_id = i, youtube_url = youtubeUrl, status = ''pending'',
      created_at = now, updated_at = now,
      screenshot_path = None, audio_path = None, transcription = None,
      ai_probabilities = None, error_message = None, processing_time = None\<rparr>"

text \<open>\<open>id\<close> is the primary key: the engine refuses a second row with the same key.\<close>

definition insertAnalysis :: "string \<Rightarrow> string \<Rightarrow> unit io" where
  "insertAnalysis i youtubeUrl w =
     (case next_outcome w of
        (Some msg, w1) \<Rightarrow> db_error msg w1
      | (None, w1) \<Rightarrow>
          if store w1 i \<noteq> None
          then db_error ''SQLITE_CONSTRAINT: UNIQUE constraint failed: analysis_results.id'' w1
          else (Inr (),
                w1\<lparr>store := (store w1)(i \<mapsto> new_row i youtubeUrl (current_timestamp w1)),
                   trace := trace w1 @ [DbInsert i youtubeUrl]\<rparr>))"

text \<open>
  The optional third argument of \<open>updateStatus\<close>. A column is written only when its
  property is truthy; \<open>transcription\<close> and \<open>aiProbabilities\<close> pass through
  \<open>JSON.stringify\<close> once more on the way.
\<close>

record additional_data =
  screenshotPath :: "string option"
  audioPath :: "string option"
  transcriptionData :: "string option"
  aiProbabilities :: "string option"
  errorMessage :: "string option"
  processingTime :: "int option"

definition no_data :: additional_data where
  "no_data =
     \<lparr>screenshotPath = None, audioPath = None, transcriptionData = None,
      aiProbabilities = None, errorMessage = None, processingTime = None\<rparr>"

definition set_columns ::
  "(json \<Rightarrow> string) \<Rightarrow> string \<Rightarrow> additional_data \<Rightarrow> string \<Rightarrow> analysis_row \<Rightarrow> analysis_row" where
  "set_columns stringify st d now r =
     r\<lparr>status := st,
       updated_at := now,
       screenshot_path :=
         (if truthy_str (screenshotPath d) then screenshotPath d else screenshot_path r),
       audio_path :=
         (if truthy_str (audioPath d) then audioPath d else audio_path r),
       transcription :=
         (if truthy_str (transcriptionData d)
          then map_option (\<lambda>s. stringify (JStr s)) (transcriptionData d)
          else transcription r),
       ai_probabilities :=
         (if truthy_str (aiProbabilities d)
          then map_option (\<lambda>s. stringify (JStr s)) (aiProbabilities d)
          else ai_probabilities r),
       error_message :=
         (if truthy_str (errorMessage d) then errorMessage d else error_message r),
       processing_time :=
         (if truthy_int (processingTime d) then processingTime d else processing_time r)\<rparr>"

text \<open>An \<open>UPDATE\<close> of an identifier without a row changes nothing and is no error.\<close>

definition updateStatus ::
  "(json \<Rightarrow> string) \<Rightarrow> string \<Rightarrow> string \<Rightarrow> additional_data \<Rightarrow> unit io" where
  "updateStatus stringify i st d w =
     (case next_outcome w of
        (Some msg, w1) \<Rightarrow> db_error msg w1
      | (None, w1) \<Rightarrow>
          (Inr (),
           w1\<lparr>store :=
                (case store w1 i of
                   None \<Rightarrow> store w1
                 | Some r \<Rightarrow> (store w1)(i \<mapsto> set_columns stringify st d (current_timestamp w1) r)),
              trace := trace w1 @ [DbUpdate i st]\<rparr>))"

definition getAnalysisById :: "string \<Rightarrow> analysis_row option io" where
  "getAnalysisById i w =
     (case next_outcome w of
        (Some msg, w1) \<Rightarrow> db_error msg w1
      | (None, w1) \<Rightarrow> (Inr (store w1 i), w1\<lparr>trace := trace w1 @ [DbGet i]\<rparr>))"

section \<open>The orchestrator (analysisService.js)\<close>

subsection \<open>The collaborators\<close>

text \<open>
  The objects the four stage adapters and the demo service resolve with: a success
  with its payload, or \<open>{success: false, error}\<close>.
\<close>

datatype demo_result = DemoOk string string json json | DemoFail string

datatype video_result = VideoOk string string | VideoFail string

datatype audio_result = AudioOk string json json | AudioFail string

datatype transcribe_result = TranscribeOk transcript | TranscribeFail string

text \<open>
  Everything a run reads from outside the store: the mode fixed at construction, the
  identifier \<open>uuidv4()\<close> yields, the three readings of \<open>Date.now()\<close> (on entry, when
  the result is prepared, in the \<open>catch\<close> block), the text of \<open>new Date().toISOString()\<close>,
  the adapters, the outcome of the detector's request for the segment at each
  position, and \<open>JSON.stringify\<close>.
\<close>

record services =
  isDemoMode :: bool
  uuidv4 :: string
  startTime :: int
  doneTime :: int
  failTime :: int
  toISOString :: string
  simulateAnalysis :: "string \<Rightarrow> string \<Rightarrow> demo_result"
  processVideo :: "string \<Rightarrow> string \<Rightarrow> video_result"
  processAudio :: "string \<Rightarrow> string \<Rightarrow> audio_result"
  transcribeAudio :: "string \<Rightarrow> string \<Rightarrow> transcribe_result"
  gptzero_post :: "nat \<Rightarrow> string \<Rightarrow> http_outcome"
  stringify :: "json \<Rightarrow> string"

subsection \<open>Payloads as JSON values\<close>

definition opt_prop :: "string \<Rightarrow> 'a option \<Rightarrow> ('a \<Rightarrow> json) \<Rightarrow> (string \<times> json) list" where
  "opt_prop k v f = (case v of None \<Rightarrow> [] | Some x \<Rightarrow> [(k, f x)])"

definition segment_props :: "'a segment_scheme \<Rightarrow> (string \<times> json) list" where
  "segment_props seg =
     [(''start'', JNum (seg_start seg)), (''end'', JNum (seg_end seg)),
      (''text'', seg_text seg), (''speaker'', JStr (speaker seg)),
      (''confidence'', JNum (seg_confidence seg))]"

definition detection_json :: "ai_detection \<Rightarrow> json" where
  "detection_json d =
     JObj (opt_prop ''error'' (error d) JStr @ opt_prop ''details'' (details d) (\<lambda>v. v)
           @ opt_prop ''ai_probability'' (ai_probability d) JNum
           @ opt_prop ''prediction'' (prediction d) JStr
           @ opt_prop ''confidence'' (confidence d) JNum
           @ opt_prop ''metadata'' (metadata d) (\<lambda>v. v))"

definition enhanced_json :: "enhanced_segment \<Rightarrow> json" where
  "enhanced_json r = JObj (segment_props r @ [(''ai_detection'', detection_json (ai_detection r))])"

definition segments_json :: "js_segments \<Rightarrow> json" where
  "segments_json sv =
     (case sv of
        SegmentsArray segs \<Rightarrow> JArr (map (\<lambda>seg. JObj (segment_props seg)) segs)
      | SegmentsValue v \<Rightarrow> json_of_non_array v)"

definition transcript_json :: "transcript \<Rightarrow> json" where
  "transcript_json t =
     JObj [(''text'', JStr (transcript_text t)), (''segments'', segments_json (segments t)),
           (''speakers'', speakers t), (''wordTimestamps'', wordTimestamps t),
           (''metadata'', transcript_metadata t)]"

subsection \<open>startAnalysis\<close>

record final_result =
  res_id :: string
  res_youtube_url :: string
  res_status :: string
  res_screenshot_path :: string
  res_audio_path :: string
  res_transcription :: json
  res_ai_probabilities :: json
  res_processing_time :: int
  res_created_at :: string
  res_metadata :: json

text \<open>
  What the promise of \<open>startAnalysis\<close> resolves with: \<open>{success: true, analysis_id,
  result}\<close>, \<open>{success: false, analysis_id, error, processing_time}\<close>, or \<open>undefined\<close>.
\<close>

datatype analysis_outcome =
  ReturnsUndefined
| Success string final_result
| Failure string string int

definition demo_branch :: "services \<Rightarrow> string \<Rightarrow> string \<Rightarrow> analysis_outcome io" where
  "demo_branch sv youtubeUrl analysisId =
     io_bind (log_event CallDemo) (\<lambda>_.
     case simulateAnalysis sv youtubeUrl analysisId of
       DemoFail err \<Rightarrow> io_throw (''Demo analysis failed: '' @ err)
     | DemoOk demo_screenshot demo_audio demo_transcription demo_probabilities \<Rightarrow>
         (let processingTime = doneTime sv - startTime sv in
          io_bind (updateStatus (stringify sv) analysisId ''completed''
                     \<lparr>screenshotPath = Some demo_screenshot,
                      audioPath = Some demo_audio,
                      transcriptionData = Some (stringify sv demo_transcription),
                      aiProbabilities = Some (stringify sv demo_probabilities),
                      errorMessage = None,
                      processingTime = Some processingTime\<rparr>) (\<lambda>_.
          io_return
            (Success analysisId
               \<lparr>res_id = analysisId, res_youtube_url = youtubeUrl,
                res_status = ''completed'',
                res_screenshot_path = demo_screenshot, res_audio_path = demo_audio,
                res_transcription = demo_transcription,
                res_ai_probabilities = demo_probabilities,
                res_processing_time = processingTime,
                res_created_at = toISOString sv,
                res_metadata =
                  JObj [(''demo_mode'', JBool True),
                        (''note'', JStr ''This is a demo result with simulated data'')]\<rparr>))))"

text \<open>
  Step 5 of the real path. A detection result with \<open>success: false\<close> is logged as a
  warning and the run goes on; the properties it lacks are replaced by \<open>|| 0\<close>.
\<close>

definition final_transcription :: "fanout_result \<Rightarrow> transcript \<Rightarrow> json" where
  "final_transcription aiDetectionResult t =
     (case aiDetectionResult of
        FanoutOk results _ _ _ \<Rightarrow> or_json (JArr (map enhanced_json results)) (transcript_json t)
      | FanoutFail _ sv \<Rightarrow> or_json (segments_json sv) (transcript_json t))"

definition final_probabilities :: "fanout_result \<Rightarrow> json" where
  "final_probabilities aiDetectionResult =
     (case aiDetectionResult of
        FanoutOk _ overall processedCount totalSegments \<Rightarrow>
          JObj [(''overall_ai_probability'', JNum (or_num (Some overall) 0)),
                (''processed_segments'', JNum (or_num (Some (real processedCount)) 0)),
                (''total_segments'', JNum (or_num (Some (real totalSegments)) 0))]
      | FanoutFail _ _ \<Rightarrow>
          JObj [(''overall_ai_probability'', JNum 0),
                (''processed_segments'', JNum 0),
                (''total_segments'', JNum 0)])"

definition prepare_final_result ::
  "services \<Rightarrow> string \<Rightarrow> string \<Rightarrow> string \<Rightarrow> string \<Rightarrow> json \<Rightarrow> json \<Rightarrow> transcript
    \<Rightarrow> fanout_result \<Rightarrow> analysis_outcome io" where
  "prepare_final_result sv youtubeUrl analysisId video_screenshot wavPath originalInfo wavInfo t
      aiDetectionResult =
     (let processingTime = doneTime sv - startTime sv;
          finalResult =
            \<lparr>res_id = analysisId, res_youtube_url = youtubeUrl,
             res_status = ''completed'',
             res_screenshot_path = video_screenshot, res_audio_path = wavPath,
             res_transcription = final_transcription aiDetectionResult t,
             res_ai_probabilities = final_probabilities aiDetectionResult,
             res_processing_time = processingTime,
             res_created_at = toISOString sv,
             res_metadata =
               JObj [(''original_audio_info'', originalInfo), (''wav_audio_info'', wavInfo),
                     (''transcription_metadata'', transcript_metadata t)]\<rparr>
      in io_bind (updateStatus (stringify sv) analysisId ''completed''
                    (no_data\<lparr>transcriptionData := Some (stringify sv (res_transcription finalResult)),
                            aiProbabilities := Some (stringify sv (res_ai_probabilities finalResult)),
                            processingTime := Some processingTime\<rparr>)) (\<lambda>_.
         io_return (Success analysisId finalResult)))"

definition detect_step ::
  "services \<Rightarrow> string \<Rightarrow> string \<Rightarrow> string \<Rightarrow> string \<Rightarrow> json \<Rightarrow> json \<Rightarrow> transcript
    \<Rightarrow> analysis_outcome io" where
  "detect_step sv youtubeUrl analysisId video_screenshot wavPath originalInfo wavInfo t =
     io_bind (log_event CallDetect) (\<lambda>_.
     case processTranscriptionSegments (gptzero_post sv) (Some t) of
       Inl msg \<Rightarrow> io_throw msg
     | Inr aiDetectionResult \<Rightarrow>
         prepare_final_result sv youtubeUrl analysisId video_screenshot wavPath
           originalInfo wavInfo t aiDetectionResult)"

definition transcribe_step ::
  "services \<Rightarrow> string \<Rightarrow> string \<Rightarrow> string \<Rightarrow> string \<Rightarrow> json \<Rightarrow> json \<Rightarrow> analysis_outcome io" where
  "transcribe_step sv youtubeUrl analysisId video_screenshot wavPath originalInfo wavInfo =
     io_bind (log_event CallTranscribe) (\<lambda>_.
     case transcribeAudio sv wavPath analysisId of
       TranscribeFail err \<Rightarrow> io_throw (''Transcription failed: '' @ err)
     | TranscribeOk t \<Rightarrow>
         io_bind (updateStatus (stringify sv) analysisId ''transcribed'' no_data) (\<lambda>_.
         detect_step sv youtubeUrl analysisId video_screenshot wavPath originalInfo wavInfo t))"

definition audio_step :: "services \<Rightarrow> string \<Rightarrow> string \<Rightarrow> string \<Rightarrow> string \<Rightarrow> analysis_outcome io" where
  "audio_step sv youtubeUrl analysisId video_screenshot video_audio =
     io_bind (log_event CallTranscode) (\<lambda>_.
     case processAudio sv video_audio analysisId of
       AudioFail err \<Rightarrow> io_throw (''Audio conversion failed: '' @ err)
     | AudioOk wavPath originalInfo wavInfo \<Rightarrow>
         io_bind (updateStatus (stringify sv) analysisId ''audio_converted''
                    (no_data\<lparr>audioPath := Some wavPath\<rparr>)) (\<lambda>_.
         transcribe_step sv youtubeUrl analysisId video_screenshot wavPath originalInfo wavInfo))"

definition real_branch :: "services \<Rightarrow> string \<Rightarrow> string \<Rightarrow> analysis_outcome io" where
  "real_branch sv youtubeUrl analysisId =
     io_bind (log_event CallCapture) (\<lambda>_.
     case processVideo sv youtubeUrl analysisId of
       VideoFail err \<Rightarrow> io_throw (''Video processing failed: '' @ err)
     | VideoOk video_screenshot video_audio \<Rightarrow>
         io_bind (updateStatus (stringify sv) analysisId ''video_processed''
                    (no_data\<lparr>screenshotPath := Some video_screenshot\<rparr>)) (\<lambda>_.
         audio_step sv youtubeUrl analysisId video_screenshot video_audio))"

definition try_block :: "services \<Rightarrow> string \<Rightarrow> string \<Rightarrow> analysis_outcome io" where
  "try_block sv youtubeUrl analysisId =
     io_bind (insertAnalysis analysisId youtubeUrl) (\<lambda>_.
     io_bind (updateStatus (stringify sv) analysisId ''processing'' no_data) (\<lambda>_.
     if isDemoMode sv then demo_branch sv youtubeUrl analysisId
     else real_branch sv youtubeUrl analysisId))"

definition catch_block :: "services \<Rightarrow> string \<Rightarrow> string \<Rightarrow> analysis_outcome io" where
  "catch_block sv analysisId msg =
     (let processingTime = failTime sv - startTime sv in
      io_bind (updateStatus (stringify sv) analysisId ''failed''
                 (no_data\<lparr>errorMessage := Some msg, processingTime := Some processingTime\<rparr>)) (\<lambda>_.
      io_return (Failure analysisId msg processingTime)))"

text \<open>
  The \<open>finally\<close> block runs after the \<open>try\<close> block or the \<open>catch\<close> block has completed, by
  a \<open>return\<close> or by an error. In demo mode it executes \<open>return;\<close>, and a \<open>return\<close> in a
  \<open>finally\<close> block replaces the pending completion. Otherwise it reads \<open>videoResult\<close>,
  a \<open>const\<close> of the \<open>try\<close> block that is not in scope here: the ReferenceError is
  caught and logged inside the block, no file is removed, and the pending completion
  stands.
\<close>

definition finally_block :: "services \<Rightarrow> string + analysis_outcome \<Rightarrow> string + analysis_outcome" where
  "finally_block sv completion = (if isDemoMode sv then Inr ReturnsUndefined else completion)"

definition startAnalysis :: "services \<Rightarrow> string \<Rightarrow> analysis_outcome io" where
  "startAnalysis sv youtubeUrl w =
     (let analysisId = uuidv4 sv;
          (tried, w1) = try_block sv youtubeUrl analysisId w;
          (completion, w2) =
            (case tried of
               Inl msg \<Rightarrow> catch_block sv analysisId msg w1
             | Inr outcome \<Rightarrow> (Inr outcome, w1))
      in (finally_block sv completion, w2))"

subsection \<open>getAnalysisResult\<close>

record analysis_view =
  view_id :: string
  view_youtube_url :: string
  view_status :: string
  view_screenshot_path :: "string option"
  view_audio_path :: "string option"
  view_transcription :: json
  view_ai_probabilities :: json
  view_error_message :: "string option"
  view_processing_time :: "int option"
  view_created_at :: string
  view_updated_at :: string

text \<open>\<open>{success: true, result}\<close> or \<open>{success: false, error}\<close>.\<close>

datatype get_result = GetOk analysis_view | GetError string

text \<open>
  \<open>JSON.parse\<close> is a parameter: \<open>parse s = None\<close> when it raises a SyntaxError on \<open>s\<close>.
  Both stored strings are parsed inside one \<open>try\<close> block, the transcription first;
  the two variables start as \<open>null\<close> and a column that is \<open>NULL\<close> or empty is skipped.
\<close>

definition parse_column :: "(string \<Rightarrow> json option) \<Rightarrow> string option \<Rightarrow> json option" where
  "parse_column parse col = (if truthy_str col then Option.bind col parse else Some JNull)"

definition parse_fields :: "(string \<Rightarrow> json option) \<Rightarrow> analysis_row \<Rightarrow> json \<times> json" where
  "parse_fields parse r =
     (case parse_column parse (transcription r) of
        None \<Rightarrow> (JNull, JNull)
      | Some parsed_transcription \<Rightarrow>
          (case parse_column parse (ai_probabilities r) of
             None \<Rightarrow> (parsed_transcription, JNull)
           | Some parsed_probabilities \<Rightarrow> (parsed_transcription, parsed_probabilities)))"

definition getAnalysisResult ::
  "(string \<Rightarrow> json option) \<Rightarrow> string \<Rightarrow> world \<Rightarrow> get_result \<times> world" where
  "getAnalysisResult parse analysisId w =
     (case getAnalysisById analysisId w of
        (Inl msg, w1) \<Rightarrow> (GetError msg, w1)
      | (Inr None, w1) \<Rightarrow> (GetError ''Analysis not found'', w1)
      | (Inr (Some r), w1) \<Rightarrow>
          (let (parsed_transcription, parsed_probabilities) = parse_fields parse r in
           (GetOk
              \<lparr>view_id = row_id r, view_youtube_url = youtube_url r, view_status = status r,
               view_screenshot_path = screenshot_path r, view_audio_path = audio_path r,
               view_transcription = parsed_transcription,
               view_ai_probabilities = parsed_probabilities,
               view_error_message = error_message r,
               view_processing_time = processing_time r,
               view_created_at = created_at r, view_updated_at = updated_at r\<rparr>,
            w1)))"

section \<open>The route GET /api/result/:id (routes/result.js)\<close>

definition is_hex :: "char \<Rightarrow> bool" where
  "is_hex c = (c \<in> set ''0123456789abcdefABCDEF'')"

text \<open>
  The test of the identifier against
  \<open>/^[0-9a-f]{8}-[0-9a-f]{4}-[1-5][0-9a-f]{3}-[89ab][0-9a-f]{3}-[0-9a-f]{12}$/i\<close>.
\<close>

definition uuidPattern_test :: "string \<Rightarrow> bool" where
  "uuidPattern_test s =
     (length s = 36
      \<and> list_all is_hex (take 8 s) \<and> s ! 8 = CHR ''-''
      \<and> list_all is_hex (take 4 (drop 9 s)) \<and> s ! 13 = CHR ''-''
      \<and> s ! 14 \<in> set ''12345'' \<and> list_all is_hex (take 3 (drop 15 s)) \<and> s ! 18 = CHR ''-''
      \<and> s ! 19 \<in> set ''89abAB'' \<and> list_all is_hex (take 3 (drop 20 s)) \<and> s ! 23 = CHR ''-''
      \<and> list_all is_hex (drop 24 s))"

record http_response =
  status_code :: nat
  body :: json

definition json_of_string :: "string option \<Rightarrow> json" where
  "json_of_string v = (case v of None \<Rightarrow> JNull | Some s \<Rightarrow> JStr s)"

definition json_of_int :: "int option \<Rightarrow> json" where
  "json_of_int v = (case v of None \<Rightarrow> JNull | Some n \<Rightarrow> JNum (real_of_int n))"

definition view_response :: "string \<Rightarrow> analysis_view \<Rightarrow> http_response" where
  "view_response i v =
     (if view_status v = ''pending'' \<or> view_status v = ''processing''
      then \<lparr>status_code = 200,
            body = JObj [(''success'', JBool True), (''analysis_id'', JStr i),
                         (''status'', JStr (view_status v)),
                         (''message'', JStr ''Analysis is still in progress''),
                         (''created_at'', JStr (view_created_at v)),
                         (''updated_at'', JStr (view_updated_at v))]\<rparr>
      else if view_status v = ''failed''
      then \<lparr>status_code = 200,
            body = JObj [(''success'', JBool True), (''analysis_id'', JStr i),
                         (''status'', JStr (view_status v)),
                         (''error_message'', json_of_string (view_error_message v)),
                         (''processing_time'', json_of_int (view_processing_time v)),
                         (''created_at'', JStr (view_created_at v)),
                         (''updated_at'', JStr (view_updated_at v))]\<rparr>
      else \<lparr>status_code = 200,
            body = JObj [(''success'', JBool True), (''analysis_id'', JStr i),
                         (''status'', JStr (view_status v)),
                         (''youtube_url'', JStr (view_youtube_url v)),
                         (''screenshot_path'', json_of_string (view_screenshot_path v)),
                         (''audio_path'', json_of_string (view_audio_path v)),
                         (''transcription'', view_transcription v),
                         (''ai_probabilities'', view_ai_probabilities v),
                         (''processing_time'', json_of_int (view_processing_time v)),
                         (''created_at'', JStr (view_created_at v)),
                         (''updated_at'', JStr (view_updated_at v))]\<rparr>)"

definition error_response :: "string \<Rightarrow> http_response" where
  "error_response err =
     (if err = ''Analysis not found''
      then \<lparr>status_code = 404,
            body = JObj [(''success'', JBool False), (''error'', JStr ''Analysis not found''),
                         (''message'', JStr ''The requested analysis ID does not exist'')]\<rparr>
      else \<lparr>status_code = 500,
            body = JObj [(''success'', JBool False), (''error'', JStr err)]\<rparr>)"

definition get_result_route ::
  "(string \<Rightarrow> json option) \<Rightarrow> string \<Rightarrow> world \<Rightarrow> http_response \<times> world" where
  "get_result_route parse i w =
     (if \<not> uuidPattern_test i
      then (\<lparr>status_code = 400,
             body = JObj [(''success'', JBool False),
                          (''error'', JStr ''Invalid analysis ID format'')]\<rparr>, w)
      else (case getAnalysisResult parse i w of
              (GetOk v, w1) \<Rightarrow> (view_response i v, w1)
            | (GetError err, w1) \<Rightarrow> (error_response err, w1)))"

text \<open>The value of a property of a JSON object, or \<open>None\<close> when it has none of that name.\<close>

definition property :: "string \<Rightarrow> json \<Rightarrow> json option" where
  "property k v = (case v of JObj kvs \<Rightarrow> map_of kvs k | _ \<Rightarrow> None)"

section \<open>Notions of the specification\<close>

text \<open>
  The words of the specification about the fan-out: the arithmetic mean (zero for no
  value), the error marker of a result (an \<open>error\<close> property attached to it, whatever
  its text), the probability a result contributes, a segment with empty or
  white-space-only text, and the results that are neither empty nor in error.
\<close>

definition arithmetic_mean :: "real list \<Rightarrow> real" where
  "arithmetic_mean xs = (if xs = [] then 0 else sum_list xs / real (length xs))"

definition has_error_marker :: "enhanced_segment \<Rightarrow> bool" where
  "has_error_marker r = (error (ai_detection r) \<noteq> None)"

definition probability_of :: "enhanced_segment \<Rightarrow> real" where
  "probability_of r = or_num (ai_probability (ai_detection r)) 0"

definition empty_text :: "'a segment_scheme \<Rightarrow> bool" where
  "empty_text seg = (case seg_text seg of JStr s \<Rightarrow> trim s = [] | v \<Rightarrow> \<not> truthy v)"

definition results_of :: "(nat \<Rightarrow> string \<Rightarrow> http_outcome) \<Rightarrow> segment list \<Rightarrow> enhanced_segment list" where
  "results_of post segs = fst (segment_loop post segs [] 0)"

definition remaining :: "enhanced_segment list \<Rightarrow> enhanced_segment list" where
  "remaining results = filter (\<lambda>r. \<not> empty_text r \<and> \<not> has_error_marker r) results"

section \<open>Sample inputs\<close>

definition sample_segment :: "string \<Rightarrow> segment" where
  "sample_segment s =
     \<lparr>seg_start = 0, seg_end = 1, seg_text = JStr s, speaker = ''speaker_1'', seg_confidence = 1\<rparr>"

definition sample_transcript :: "segment list \<Rightarrow> transcript" where
  "sample_transcript segs =
     \<lparr>transcript_text = ''sample'', segments = SegmentsArray segs, speakers = JArr [],
      wordTimestamps = JArr [], transcript_metadata = JObj []\<rparr>"

definition detector_ok :: "real \<Rightarrow> http_outcome" where
  "detector_ok p =
     HttpOk [\<lparr>doc_ai_probability = Some p, doc_prediction = Some ''ai'',
              doc_confidence = Some 1, doc_metadata = JNull\<rparr>]"


text \<open>
  Five segments, the second with white space only; the detector fails on the third.
\<close>

definition scenario_segments :: "segment list" where
  "scenario_segments =
     [sample_segment ''one'', sample_segment ''  '', sample_segment ''three'',
      sample_segment ''four'', sample_segment ''five'']"

definition scenario_post :: "nat \<Rightarrow> string \<Rightarrow> http_outcome" where
  "scenario_post i txt = (if i = 2 then HttpError ''timeout of 60000ms exceeded'' JNull else detector_ok (4/5))"

text \<open>
  The results without the one at position \<open>i\<close>.
\<close>

definition without :: "nat \<Rightarrow> 'a list \<Rightarrow> 'a list" where
  "without i xs = take i xs @ drop (Suc i) xs"

text \<open>
  Two segments; the request of the second one is rejected with an error whose message
  is the empty string.
\<close>

definition silent_failure_segments :: "segment list" where
  "silent_failure_segments = [sample_segment ''hello'', sample_segment ''bye'']"

definition silent_failure_post :: "nat \<Rightarrow> string \<Rightarrow> http_outcome" where
  "silent_failure_post i txt = (if i = 1 then HttpError [] JNull else detector_ok (4/5))"

text \<open>
  A store with one row, and a \<open>JSON.parse\<close> that accepts two texts only.
\<close>

definition sample_id :: string where
  "sample_id = ''123e4567-e89b-42d3-a456-426614174000''"

definition other_id :: string where
  "other_id = ''00000000-0000-4000-8000-000000000000''"

definition sample_parse :: "string \<Rightarrow> json option" where
  "sample_parse s =
     (if s = ''{}'' then Some (JObj []) else if s = ''[]'' then Some (JArr []) else None)"

definition sample_row :: "string \<Rightarrow> string option \<Rightarrow> string option \<Rightarrow> analysis_row" where
  "sample_row st tr ai =
     \<lparr>row_id = sample_id, youtube_url = ''https://youtu.be/abc123'', status = st,
      created_at = ''2024-01-01 00:00:00'', updated_at = ''2024-01-01 00:00:05'',
      screenshot_path = None, audio_path = None, transcription = tr,
      ai_probabilities = ai, error_message = None, processing_time = Some 5000\<rparr>"

definition world_with :: "(string \<rightharpoonup> analysis_row) \<Rightarrow> world" where
  "world_with rows =
     \<lparr>store = rows, db_outcomes = [], current_timestamp = ''2024-01-01 00:00:00'', trace = []\<rparr>"

text \<open>
  Collaborators for sample runs: fixed answers of the adapters, a clock that advances
  by \<open>elapsed\<close> milliseconds between the start and the second reading, and a stand-in
  for \<open>JSON.stringify\<close>.
\<close>

definition sample_stringify :: "json \<Rightarrow> string" where
  "sample_stringify v =
     (case v of
        JStr s \<Rightarrow> CHR 0x22 # s @ [CHR 0x22]
      | JArr [] \<Rightarrow> ''[]''
      | JObj [] \<Rightarrow> ''{}''
      | _ \<Rightarrow> ''{...}'')"

definition sample_services ::
  "bool \<Rightarrow> video_result \<Rightarrow> audio_result \<Rightarrow> transcribe_result \<Rightarrow> int \<Rightarrow> services" where
  "sample_services demo video audio transcribed elapsed =
     \<lparr>isDemoMode = demo, uuidv4 = sample_id,
      startTime = 1700000000000, doneTime = 1700000000000 + elapsed,
      failTime = 1700000000000 + elapsed,
      toISOString = ''2023-11-14T22:13:20.000Z'',
      simulateAnalysis =
        (\<lambda>youtubeUrl analysisId.
           DemoOk (''screenshots/demo_'' @ analysisId @ ''.png'')
                  (''data/audio/demo_'' @ analysisId @ ''.wav'') (JObj []) (JObj [])),
      processVideo = (\<lambda>youtubeUrl analysisId. video),
      processAudio = (\<lambda>audioPath analysisId. audio),
      transcribeAudio = (\<lambda>wavPath analysisId. transcribed),
      gptzero_post = (\<lambda>i txt. detector_ok (4/5)),
      stringify = sample_stringify\<rparr>"

definition empty_world :: world where
  "empty_world = world_with Map.empty"

text \<open>
  A real-mode run whose capture stage fails; \<open>elapsed\<close> is the time on the clock
  between the start of the run and the \<open>catch\<close> block.
\<close>

definition capture_failure :: "int \<Rightarrow> services" where
  "capture_failure elapsed =
     sample_services False (VideoFail ''Failed to capture screenshot: Navigation timeout'')
       (AudioFail ''unused'') (TranscribeFail ''unused'') elapsed"

text \<open>
  A real-mode run whose transcode stage reports \<open>bad codec\<close>.
\<close>

definition bad_codec_services :: services where
  "bad_codec_services =
     sample_services False (VideoOk ''screenshots/shot.png'' ''audio/raw.webm'')
       (AudioFail ''bad codec'') (TranscribeFail ''unused'') 1200"




text \<open>
  The events that are calls of an external stage, real or simulated.
\<close>

definition is_stage :: "event \<Rightarrow> bool" where
  "is_stage ev =
     (case ev of
        CallDemo \<Rightarrow> True | CallCapture \<Rightarrow> True | CallTranscode \<Rightarrow> True
      | CallTranscribe \<Rightarrow> True | CallDetect \<Rightarrow> True | _ \<Rightarrow> False)"

text \<open>
  Three segments: a text, white space only, and a text whose request is rejected with
  an error whose message is the empty string.
\<close>

definition unmarked_failure_segments :: "segment list" where
  "unmarked_failure_segments =
     [sample_segment ''hello'', sample_segment ''  '', sample_segment ''bye'']"

definition unmarked_failure_post :: "nat \<Rightarrow> string \<Rightarrow> http_outcome" where
  "unmarked_failure_post i txt = (if i = 2 then HttpError [] JNull else detector_ok (4/5))"

text \<open>
  A real-mode run over the two segments of which the second fails silently.
\<close>

definition silent_failure_services :: services where
  "silent_failure_services =
     (sample_services False (VideoOk ''screenshots/shot.png'' ''audio/raw.webm'')
        (AudioOk ''audio/out.wav'' (JObj []) (JObj []))
        (TranscribeOk (sample_transcript silent_failure_segments)) 1200)
     \<lparr>gptzero_post := silent_failure_post\<rparr>"

text \<open>
  The detection payload stored for an identifier: none when there is no row or the
  column is \<open>NULL\<close>. A step from one world to a later one is quiet when it calls
  neither the transcription nor the detection and leaves every stored detection payload
  as it was.
\<close>

definition detection_payload :: "world \<Rightarrow> string \<Rightarrow> string option" where
  "detection_payload w i = Option.bind (store w i) ai_probabilities"

definition quiet :: "world \<Rightarrow> world \<Rightarrow> bool" where
  "quiet w w' =
     ((\<exists>new. trace w' = trace w @ new \<and> CallTranscribe \<notin> set new \<and> CallDetect \<notin> set new)
      \<and> (\<forall>i. detection_payload w' i = detection_payload w i))"

text \<open>
  A store that executes the first three statements of a run and refuses the fourth.
\<close>

definition busy_world :: world where
  "busy_world =
     empty_world\<lparr>db_outcomes := [None, None, None, Some ''SQLITE_BUSY: database is locked'']\<rparr>"

section \<open>Properties of the segment fan-out\<close>

lemma ai_detection_enhance: "ai_detection (enhance seg d) = d"
  by (simp add: enhance_def segment.defs enhanced_segment.defs)

lemma seg_text_enhance: "seg_text (enhance seg d) = seg_text seg"
  by (simp add: enhance_def segment.defs enhanced_segment.defs)

lemma truncate_enhance: "segment.truncate (enhance seg d) = seg"
  by (simp add: enhance_def segment.defs enhanced_segment.defs)

lemma seg_text_process_segment: "seg_text (process_segment p seg) = seg_text seg"
  by (simp add: process_segment_def seg_text_enhance split: json.splits)

lemma truncate_process_segment: "segment.truncate (process_segment p seg) = seg"
  by (simp add: process_segment_def truncate_enhance split: json.splits)

lemma empty_text_process_segment:
  "empty_text seg \<Longrightarrow>
   ai_detection (process_segment p seg) =
     \<lparr>error = None, details = None, ai_probability = Some 0,
      prediction = Some ''empty'', confidence = Some 0, metadata = None\<rparr>"
  by (auto simp: empty_text_def process_segment_def ai_detection_enhance empty_detection_def
      split: json.splits)

lemma segment_loop_eq:
  "segment_loop post segs acc n =
     (acc @ map (\<lambda>(i, s). process_segment (post i) s) (zip [n ..< n + length segs] segs),
      n + length segs)"
proof (induction segs arbitrary: acc n)
  case Nil
  then show ?case by simp
next
  case (Cons s segs)
  have "[n ..< n + length (s # segs)] = n # [Suc n ..< Suc n + length segs]"
    by (simp add: upt_rec)
  then show ?case using Cons.IH [of "acc @ [process_segment (post n) s]" "Suc n"]
    by simp
qed

lemma results_of_eq:
  "results_of post segs = map (\<lambda>(i, s). process_segment (post i) s) (zip [0 ..< length segs] segs)"
  by (simp add: results_of_def segment_loop_eq)

lemma length_results_of: "length (results_of post segs) = length segs"
  by (simp add: results_of_eq)

lemma nth_results_of:
  "i < length segs \<Longrightarrow> results_of post segs ! i = process_segment (post i) (segs ! i)"
  by (simp add: results_of_eq)

lemma foldl_sum: "foldl (\<lambda>sum r. sum + f r) a xs = a + sum_list (map f xs)" for a :: real
  by (induction xs arbitrary: a) simp_all

lemma overall_is_mean_of_valid:
  "overallAIProbability results =
     arithmetic_mean (map probability_of (validResults results))"
  unfolding overallAIProbability_def arithmetic_mean_def Let_def probability_of_def [abs_def]
  by (simp add: foldl_sum)

lemma fanout_on_array:
  "segments t = SegmentsArray segs \<Longrightarrow>
   processTranscriptionSegments post (Some t) =
     Inr (FanoutOk (results_of post segs) (overallAIProbability (results_of post segs))
            (length segs) (length segs))"
  by (simp add: processTranscriptionSegments_def results_of_def segment_loop_eq)

lemma trim_samples:
  "trim [] = []" "trim ''  '' = []" "trim ''hello'' = ''hello''" "trim ''bye'' = ''bye''"
  by (simp_all add: trim_def trimStart_def trimEnd_def is_ws_def is_ws2_def is_ws3_def)

lemma trim_unicode_white_space:
  "trim [CHR 0xC2, CHR 0xA0] = []"
  "trim ([CHR 0xEF, CHR 0xBB, CHR 0xBF] @ ''hi'' @ [CHR 0xE2, CHR 0x80, CHR 0xA8, CHR 0x20]) = ''hi''"
  "trim [CHR 0xC3, CHR 0xA0] = [CHR 0xC3, CHR 0xA0]"
  by (simp_all add: trim_def trimStart_def trimEnd_def is_ws_def is_ws2_def is_ws3_def)

lemma unmarked_results:
  "results_of unmarked_failure_post unmarked_failure_segments =
     [enhance (sample_segment ''hello'') (detection_of (DetectOk (4/5) ''ai'' 1 (JObj []))),
      enhance (sample_segment ''  '') empty_detection,
      enhance (sample_segment ''bye'') (detection_of (DetectFail [] JNull))]"
  by (simp add: results_of_def unmarked_failure_segments_def unmarked_failure_post_def
      process_segment_def sample_segment_def trim_samples detectAIProbability_def
      detector_ok_def or_num_def or_str_def or_json_def)

text \<open>
  Claim C5, where the code departs from it. Three segments: the first is detected with
  probability \<open>4/5\<close>, the second has white space only, and the detection of the third
  fails with an error whose message is empty. The fan-out returns a success and
  reports three of three segments. The results of the first two segments carry no
  error marker (the second is the synthetic zero-probability result) and the third
  carries one, so the mean over the results without an error marker is \<open>2/5\<close>; the
  overall probability reported is \<open>4/15\<close>, because \<open>validResults\<close> tests the marker for
  truthiness and keeps the third result.
\<close>

theorem fanout_counts_unmarked_failure:
  "processTranscriptionSegments unmarked_failure_post
     (Some (sample_transcript unmarked_failure_segments)) =
     Inr (FanoutOk (results_of unmarked_failure_post unmarked_failure_segments) (4/15) 3 3)
   \<and> map (\<lambda>r. error (ai_detection r))
         (results_of unmarked_failure_post unmarked_failure_segments) = [None, None, Some []]
   \<and> map has_error_marker (results_of unmarked_failure_post unmarked_failure_segments) =
       [False, False, True]
   \<and> map probability_of
         (filter (\<lambda>r. \<not> has_error_marker r)
            (results_of unmarked_failure_post unmarked_failure_segments)) = [4/5, 0]
   \<and> arithmetic_mean
         (map probability_of
            (filter (\<lambda>r. \<not> has_error_marker r)
               (results_of unmarked_failure_post unmarked_failure_segments))) = 2/5
   \<and> length (validResults (results_of unmarked_failure_post unmarked_failure_segments)) = 3"
proof -
  let ?rs = "results_of unmarked_failure_post unmarked_failure_segments"
  have h: "segments (sample_transcript unmarked_failure_segments) =
      SegmentsArray unmarked_failure_segments"
    by (simp add: sample_transcript_def)
  have n: "length unmarked_failure_segments = 3" by (simp add: unmarked_failure_segments_def)
  have e: "map (\<lambda>r. error (ai_detection r)) ?rs = [None, None, Some []]"
    by (simp add: unmarked_results ai_detection_enhance detection_of_def empty_detection_def)
  have m: "map has_error_marker ?rs = [False, False, True]"
    by (simp add: unmarked_results has_error_marker_def ai_detection_enhance detection_of_def
        empty_detection_def)
  have p: "map probability_of (filter (\<lambda>r. \<not> has_error_marker r) ?rs) = [4/5, 0]"
    by (simp add: unmarked_results has_error_marker_def probability_of_def ai_detection_enhance
        detection_of_def empty_detection_def or_num_def)
  have v: "map probability_of (validResults ?rs) = [4/5, 0, 0]"
    by (simp add: unmarked_results validResults_def probability_of_def ai_detection_enhance
        detection_of_def empty_detection_def or_num_def truthy_str_def)
  have l: "length (validResults ?rs) = 3"
    using arg_cong [OF v, of length] by simp
  have ov: "overallAIProbability ?rs = 4/15"
    by (simp add: overall_is_mean_of_valid v arithmetic_mean_def)
  have f: "processTranscriptionSegments unmarked_failure_post
      (Some (sample_transcript unmarked_failure_segments)) = Inr (FanoutOk ?rs (4/15) 3 3)"
    using fanout_on_array [OF h, of unmarked_failure_post] by (simp add: ov n)
  show ?thesis
    using f e m p l by (simp add: arithmetic_mean_def)
qed

lemma empty_text_process_segment_iff: "empty_text (process_segment p seg) = empty_text seg"
  by (simp add: empty_text_def seg_text_process_segment)

lemma set_results_of:
  "r \<in> set (results_of post segs) \<Longrightarrow> \<exists>i seg. r = process_segment (post i) seg"
  by (auto simp: results_of_eq dest!: in_set_zipE)

lemma empty_result_is_unmarked_zero:
  assumes "r \<in> set (results_of post segs)" "empty_text r"
  shows "\<not> has_error_marker r \<and> probability_of r = 0"
proof -
  obtain i seg where r: "r = process_segment (post i) seg"
    using set_results_of [OF assms(1)] by blast
  with assms(2) have "empty_text seg" by (simp add: empty_text_process_segment_iff)
  then show ?thesis
    by (simp add: r empty_text_process_segment has_error_marker_def probability_of_def
        or_num_def)
qed

lemma process_segment_message:
  assumes "\<And>txt data. p txt \<noteq> HttpError [] data"
  shows "error (ai_detection (process_segment p seg)) \<noteq> Some []"
proof (cases "seg_text seg")
  case (JStr s)
  show ?thesis
  proof (cases "p (trim s)")
    case (HttpError msg data)
    with assms [of "trim s" data] have "msg \<noteq> []" by auto
    with JStr HttpError show ?thesis
      by (simp add: process_segment_def ai_detection_enhance detection_of_def
          detectAIProbability_def empty_detection_def)
  next
    case (HttpOk docs)
    with JStr show ?thesis
      by (simp add: process_segment_def ai_detection_enhance detection_of_def
          detectAIProbability_def empty_detection_def split: list.splits)
  qed
qed (simp_all add: process_segment_def ai_detection_enhance empty_detection_def
    error_detection_def)

lemma no_empty_message:
  assumes "\<And>i txt data. post i txt \<noteq> HttpError [] data"
  shows "\<forall>r \<in> set (results_of post segs). error (ai_detection r) \<noteq> Some []"
proof
  fix r assume "r \<in> set (results_of post segs)"
  then obtain i seg where r: "r = process_segment (post i) seg"
    using set_results_of by blast
  show "error (ai_detection r) \<noteq> Some []"
    unfolding r by (rule process_segment_message) (rule assms)
qed

lemma valid_is_unmarked:
  assumes "\<forall>r \<in> set rs. error (ai_detection r) \<noteq> Some []"
  shows "validResults rs = filter (\<lambda>r. \<not> has_error_marker r) rs"
  unfolding validResults_def
proof (rule filter_cong [OF refl])
  fix r assume "r \<in> set rs"
  with assms have "error (ai_detection r) \<noteq> Some []" by blast
  then show "(\<not> truthy_str (error (ai_detection r))) = (\<not> has_error_marker r)"
    by (cases "error (ai_detection r)") (simp_all add: truthy_str_def has_error_marker_def)
qed

lemma count_empty_results:
  "length (filter empty_text (results_of post segs)) = length (filter empty_text segs)"
proof -
  have "map empty_text (results_of post segs) = map empty_text segs"
    by (rule nth_equalityI)
      (simp_all add: length_results_of nth_results_of empty_text_process_segment_iff)
  moreover have "length (filter P xs) = length (filter (\<lambda>b. b) (map P xs))" for P and xs :: "'b list"
    by (induction xs) simp_all
  ultimately show ?thesis by metis
qed

lemma split_valid:
  assumes "\<forall>x \<in> set xs. E x \<longrightarrow> \<not> B x \<and> f x = (0::real)"
  shows "sum_list (map f (filter (\<lambda>x. \<not> B x) xs)) =
           sum_list (map f (filter (\<lambda>x. \<not> E x \<and> \<not> B x) xs))
         \<and> length (filter (\<lambda>x. \<not> E x \<and> \<not> B x) xs) + length (filter E xs) + length (filter B xs)
             = length xs"
  using assms by (induction xs) auto

lemma count_valid: "length (filter (\<lambda>x. \<not> B x) xs) + length (filter B xs) = length xs"
  by (induction xs) auto

text \<open>
  Claim C3, as amended. Take \<open>N\<close> segments, \<open>K\<close> of them with empty text and \<open>M\<close> of
  them with a failure, that is with an error attached to their result, and let none
  of these errors have the empty message. Then the fan-out returns a success whose
  overall probability is the sum of \<open>ai_probability\<close> over the \<open>N - K - M\<close> remaining
  results divided by \<open>N - M\<close>, zero when \<open>N - M = 0\<close>: the empty segments are counted,
  each with probability zero. Both counts are \<open>N\<close>.
\<close>

theorem fanout_mean_counts_empty_segments:
  assumes "segments t = SegmentsArray segs"
    and "\<forall>r \<in> set (results_of post segs). error (ai_detection r) \<noteq> Some []"
  shows "(let rs = results_of post segs;
              N = length segs;
              K = length (filter empty_text segs);
              M = length (filter has_error_marker rs)
          in processTranscriptionSegments post (Some t) =
               Inr (FanoutOk rs
                      (if N - M = 0 then 0
                       else sum_list (map probability_of (remaining rs)) / real (N - M))
                      N N)
             \<and> length (remaining rs) = N - K - M \<and> K + M \<le> N)"
proof -
  let ?rs = "results_of post segs"
  have E: "\<forall>r \<in> set ?rs. empty_text r \<longrightarrow> \<not> has_error_marker r \<and> probability_of r = 0"
    using empty_result_is_unmarked_zero by blast
  note S = split_valid [OF E]
  note V = valid_is_unmarked [OF assms(2)]
  have sum: "sum_list (map probability_of (filter (\<lambda>r. \<not> has_error_marker r) ?rs)) =
      sum_list (map probability_of (remaining ?rs))"
    using S by (simp add: remaining_def)
  have cnt: "length (remaining ?rs) + length (filter empty_text segs)
      + length (filter has_error_marker ?rs) = length segs"
    using S by (simp add: remaining_def count_empty_results length_results_of)
  have valid: "length (filter (\<lambda>r. \<not> has_error_marker r) ?rs) =
      length segs - length (filter has_error_marker ?rs)"
    using count_valid [of has_error_marker ?rs] by (simp add: length_results_of)
  have ov: "overallAIProbability ?rs =
      (if length segs - length (filter has_error_marker ?rs) = 0 then 0
       else sum_list (map probability_of (remaining ?rs))
              / real (length segs - length (filter has_error_marker ?rs)))"
  proof (cases "filter (\<lambda>r. \<not> has_error_marker r) ?rs = []")
    case True
    with valid have "length segs - length (filter has_error_marker ?rs) = 0" by simp
    with True show ?thesis by (simp add: overall_is_mean_of_valid V arithmetic_mean_def)
  next
    case False
    with valid have "length segs - length (filter has_error_marker ?rs) \<noteq> 0" by auto
    with False show ?thesis
      unfolding overall_is_mean_of_valid V arithmetic_mean_def
      by (simp only: valid sum length_map map_is_Nil_conv if_False)
  qed
  show ?thesis
    unfolding Let_def using fanout_on_array [OF assms(1), of post] cnt
    by (simp add: ov)
qed

lemma trim_scenario:
  "trim ''one'' = ''one''" "trim ''three'' = ''three''" "trim ''four'' = ''four''"
  "trim ''five'' = ''five''"
  by (simp_all add: trim_def trimStart_def trimEnd_def is_ws_def is_ws2_def is_ws3_def)

lemma scenario_results:
  "results_of scenario_post scenario_segments =
     [enhance (sample_segment ''one'') (detection_of (DetectOk (4/5) ''ai'' 1 (JObj []))),
      enhance (sample_segment ''  '') empty_detection,
      enhance (sample_segment ''three'') (detection_of (DetectFail ''timeout of 60000ms exceeded'' JNull)),
      enhance (sample_segment ''four'') (detection_of (DetectOk (4/5) ''ai'' 1 (JObj []))),
      enhance (sample_segment ''five'') (detection_of (DetectOk (4/5) ''ai'' 1 (JObj [])))]"
  by (simp add: results_of_def scenario_segments_def scenario_post_def process_segment_def
      sample_segment_def trim_samples trim_scenario detectAIProbability_def detector_ok_def
      or_num_def or_str_def or_json_def)

lemma scenario_markers:
  "map has_error_marker (results_of scenario_post scenario_segments) =
     [False, False, True, False, False]"
  by (simp add: scenario_results has_error_marker_def ai_detection_enhance detection_of_def
      empty_detection_def truthy_str_def)

lemma scenario_empty:
  "map empty_text scenario_segments = [False, True, False, False, False]"
  by (simp add: scenario_segments_def empty_text_def sample_segment_def trim_samples
      trim_scenario)

lemma scenario_probabilities:
  "map probability_of (results_of scenario_post scenario_segments) = [4/5, 0, 0, 4/5, 4/5]"
  by (simp add: scenario_results probability_of_def ai_detection_enhance detection_of_def
      empty_detection_def or_num_def)

lemma filter_by_flags: "length (filter P xs) = length (filter (\<lambda>b. b) (map P xs))"
  by (induction xs) simp_all

lemma scenario_counts:
  "length (filter empty_text scenario_segments) = 1"
  "length (filter has_error_marker (results_of scenario_post scenario_segments)) = 1"
  by (simp_all add: filter_by_flags [of empty_text] filter_by_flags [of has_error_marker]
      scenario_empty scenario_markers)

lemma scenario_remaining:
  "map probability_of (remaining (results_of scenario_post scenario_segments)) = [4/5, 4/5, 4/5]"
  by (simp add: scenario_results remaining_def probability_of_def ai_detection_enhance
      detection_of_def empty_detection_def or_num_def has_error_marker_def truthy_str_def
      empty_text_def seg_text_enhance sample_segment_def trim_samples trim_scenario)

lemma scenario_valid:
  "map probability_of (validResults (results_of scenario_post scenario_segments)) =
     [4/5, 0, 4/5, 4/5]"
  by (simp add: scenario_results probability_of_def ai_detection_enhance
      detection_of_def empty_detection_def or_num_def validResults_def truthy_str_def)

text \<open>
  The scenario of the specification: five segments, one with empty text, one whose
  detection fails. The overall probability is \<open>3/5\<close>, the mean over four results;
  the mean over the three remaining ones is \<open>4/5\<close>.
\<close>

theorem fanout_mean_over_remaining_counterexample:
  "processTranscriptionSegments scenario_post (Some (sample_transcript scenario_segments)) =
     Inr (FanoutOk (results_of scenario_post scenario_segments) (3/5) 5 5)
   \<and> length scenario_segments = 5
   \<and> length (filter empty_text scenario_segments) = 1
   \<and> length (filter has_error_marker (results_of scenario_post scenario_segments)) = 1
   \<and> length (remaining (results_of scenario_post scenario_segments)) = 3
   \<and> arithmetic_mean
        (map probability_of (remaining (results_of scenario_post scenario_segments))) = 4/5"
proof -
  have h: "segments (sample_transcript scenario_segments) = SegmentsArray scenario_segments"
    by (simp add: sample_transcript_def)
  have n: "length scenario_segments = 5" by (simp add: scenario_segments_def)
  have ov: "overallAIProbability (results_of scenario_post scenario_segments) = 3/5"
    by (simp add: overall_is_mean_of_valid scenario_valid arithmetic_mean_def)
  have r: "length (remaining (results_of scenario_post scenario_segments)) = 3"
    using arg_cong [OF scenario_remaining, of length] by simp
  show ?thesis
    using fanout_on_array [OF h, of scenario_post]
    by (simp add: ov n r scenario_counts scenario_remaining arithmetic_mean_def)
qed

theorem fanout_mean_counts_empty_segments_witness:
  "segments (sample_transcript scenario_segments) = SegmentsArray scenario_segments
   \<and> map (\<lambda>r. error (ai_detection r)) (results_of scenario_post scenario_segments) =
       [None, None, Some ''timeout of 60000ms exceeded'', None, None]
   \<and> processTranscriptionSegments scenario_post (Some (sample_transcript scenario_segments)) =
       Inr (FanoutOk (results_of scenario_post scenario_segments) ((4/5 + 4/5 + 4/5) / 4) 5 5)
   \<and> length (remaining (results_of scenario_post scenario_segments)) = 5 - 1 - 1"
proof -
  have h: "segments (sample_transcript scenario_segments) = SegmentsArray scenario_segments"
    by (simp add: sample_transcript_def)
  have e: "map (\<lambda>r. error (ai_detection r)) (results_of scenario_post scenario_segments) =
      [None, None, Some ''timeout of 60000ms exceeded'', None, None]"
    by (simp add: scenario_results ai_detection_enhance detection_of_def empty_detection_def)
  have m: "\<forall>r \<in> set (results_of scenario_post scenario_segments).
      error (ai_detection r) \<noteq> Some []"
    by (rule no_empty_message) (simp add: scenario_post_def detector_ok_def)
  have n: "length scenario_segments = 5" by (simp add: scenario_segments_def)
  show ?thesis
    using fanout_mean_counts_empty_segments [of "sample_transcript scenario_segments"
        scenario_segments scenario_post, OF h m] h e
    by (simp add: Let_def n scenario_counts scenario_remaining)
qed

section \<open>Properties of the result projection\<close>

lemma getAnalysisById_answer:
  "fst (next_outcome w) = None \<Longrightarrow> fst (getAnalysisById i w) = Inr (store w i)"
  by (auto simp: getAnalysisById_def next_outcome_def split: list.splits prod.splits option.splits)

lemma getAnalysisResult_found:
  assumes "fst (next_outcome w) = None" "store w i = Some r"
  shows "fst (getAnalysisResult parse i w) =
           GetOk \<lparr>view_id = row_id r, view_youtube_url = youtube_url r, view_status = status r,
                  view_screenshot_path = screenshot_path r, view_audio_path = audio_path r,
                  view_transcription = fst (parse_fields parse r),
                  view_ai_probabilities = snd (parse_fields parse r),
                  view_error_message = error_message r,
                  view_processing_time = processing_time r,
                  view_created_at = created_at r, view_updated_at = updated_at r\<rparr>"
  using assms
  by (auto simp: getAnalysisResult_def getAnalysisById_def next_outcome_def
      split: list.splits prod.splits option.splits)

text \<open>
  Claim C10. When the stored transcription is a non-empty string that \<open>JSON.parse\<close>
  rejects, the view \<open>getAnalysisResult\<close> returns has \<open>null\<close> for the transcription
  and for the probabilities, whatever the stored probabilities are, and the read is
  a success.
\<close>

theorem projection_parse_failure_nulls_both_fields:
  assumes "fst (next_outcome w) = None"
    and "store w i = Some r"
    and "transcription r = Some s"
    and "s \<noteq> []"
    and "parse s = None"
  shows "\<exists>v. fst (getAnalysisResult parse i w) = GetOk v
           \<and> view_transcription v = JNull \<and> view_ai_probabilities v = JNull
           \<and> view_status v = status r"
proof -
  have "parse_column parse (transcription r) = None"
    using assms(3-5) by (simp add: parse_column_def truthy_str_def)
  then have "parse_fields parse r = (JNull, JNull)"
    by (simp add: parse_fields_def)
  then show ?thesis
    using getAnalysisResult_found [OF assms(1,2), of parse] by simp
qed

theorem projection_parse_failure_nulls_both_fields_witness:
  "fst (next_outcome (world_with [sample_id \<mapsto> sample_row ''completed'' (Some ''{oops'') (Some ''{}'')])) = None
   \<and> sample_parse ''{oops'' = None
   \<and> sample_parse ''{}'' = Some (JObj [])
   \<and> (\<exists>v. fst (getAnalysisResult sample_parse sample_id
              (world_with [sample_id \<mapsto> sample_row ''completed'' (Some ''{oops'') (Some ''{}'')]))
            = GetOk v
          \<and> view_transcription v = JNull \<and> view_ai_probabilities v = JNull
          \<and> view_status v = ''completed'')"
proof -
  let ?r = "sample_row ''completed'' (Some ''{oops'') (Some ''{}'')"
  let ?w = "world_with [sample_id \<mapsto> ?r]"
  have a: "fst (next_outcome ?w) = None" by (simp add: next_outcome_def world_with_def)
  have b: "store ?w sample_id = Some ?r" by (simp add: world_with_def)
  have c: "transcription ?r = Some ''{oops''" by (simp add: sample_row_def)
  have d: "''{oops'' \<noteq> []" by simp
  have e: "sample_parse ''{oops'' = None" by (simp add: sample_parse_def)
  have f: "sample_parse ''{}'' = Some (JObj [])" by (simp add: sample_parse_def)
  have g: "status ?r = ''completed''" by (simp add: sample_row_def)
  show ?thesis
    using projection_parse_failure_nulls_both_fields [of ?w sample_id ?r "''{oops''" sample_parse, OF a b c d e] a e f g by simp
qed

lemma getAnalysisResult_missing:
  assumes "store w i = None"
  shows "fst (getAnalysisResult parse i w) =
           (case fst (next_outcome w) of
              None \<Rightarrow> GetError ''Analysis not found''
            | Some msg \<Rightarrow> GetError msg)"
  using assms
  by (auto simp: getAnalysisResult_def getAnalysisById_def next_outcome_def db_error_def
      split: list.splits prod.splits option.splits)

lemma error_response_shape:
  "status_code (error_response err) \<noteq> 200
   \<and> property ''success'' (body (error_response err)) = Some (JBool False)
   \<and> property ''status'' (body (error_response err)) = None"
  by (simp add: error_response_def property_def)

lemma route_missing:
  assumes "store w i = None"
  shows "fst (get_result_route parse i w) =
           (if \<not> uuidPattern_test i
            then \<lparr>status_code = 400,
                  body = JObj [(''success'', JBool False),
                               (''error'', JStr ''Invalid analysis ID format'')]\<rparr>
            else error_response
                   (case fst (next_outcome w) of
                      None \<Rightarrow> ''Analysis not found'' | Some msg \<Rightarrow> msg))"
proof (cases "uuidPattern_test i")
  case False
  then show ?thesis by (simp add: get_result_route_def)
next
  case True
  obtain g w1 where g: "getAnalysisResult parse i w = (g, w1)" by (cases "getAnalysisResult parse i w")
  with getAnalysisResult_missing [OF assms, of parse]
  have "g = (case fst (next_outcome w) of
               None \<Rightarrow> GetError ''Analysis not found'' | Some msg \<Rightarrow> GetError msg)"
    by simp
  with True g show ?thesis
    by (simp add: get_result_route_def split: option.splits)
qed

lemma route_failed:
  assumes "store w i = Some r" "status r = ''failed''" "uuidPattern_test i"
    "fst (next_outcome w) = None"
  shows "status_code (fst (get_result_route parse i w)) = 200
         \<and> property ''success'' (body (fst (get_result_route parse i w))) = Some (JBool True)
         \<and> property ''status'' (body (fst (get_result_route parse i w))) = Some (JStr ''failed'')"
proof -
  obtain g w1 where g: "getAnalysisResult parse i w = (g, w1)" by (cases "getAnalysisResult parse i w")
  with getAnalysisResult_found [OF assms(4,1), of parse]
  obtain v where v: "g = GetOk v" "view_status v = ''failed''"
    using assms(2) by simp
  with g assms(3) show ?thesis
    by (simp add: get_result_route_def view_response_def property_def)
qed

text \<open>
  Claim C8. Reading an identifier that has no row never yields a view: when the store
  answers, \<open>getAnalysisResult\<close> returns the error \<open>Analysis not found\<close>. The response
  of the route has a status code other than 200, \<open>success: false\<close> and no \<open>status\<close>
  property (404 with the error \<open>Analysis not found\<close> for a well-formed identifier the
  store answers for), whereas the response for a row whose status is \<open>failed\<close> has the
  code 200, \<open>success: true\<close> and \<open>status: failed\<close>.
\<close>

theorem not_found_is_never_shaped_like_failed:
  assumes "store w i = None"
  shows "(\<forall>v. fst (getAnalysisResult parse i w) \<noteq> GetOk v)
    \<and> (fst (next_outcome w) = None \<longrightarrow>
          fst (getAnalysisResult parse i w) = GetError ''Analysis not found'')
    \<and> status_code (fst (get_result_route parse i w)) \<noteq> 200
    \<and> property ''success'' (body (fst (get_result_route parse i w))) = Some (JBool False)
    \<and> property ''status'' (body (fst (get_result_route parse i w))) = None
    \<and> (uuidPattern_test i \<and> fst (next_outcome w) = None \<longrightarrow>
          status_code (fst (get_result_route parse i w)) = 404
          \<and> property ''error'' (body (fst (get_result_route parse i w))) =
              Some (JStr ''Analysis not found''))
    \<and> (\<forall>w' i' r. store w' i' = Some r \<and> status r = ''failed'' \<and> uuidPattern_test i'
            \<and> fst (next_outcome w') = None \<longrightarrow>
          status_code (fst (get_result_route parse i' w')) = 200
          \<and> property ''success'' (body (fst (get_result_route parse i' w'))) = Some (JBool True)
          \<and> property ''status'' (body (fst (get_result_route parse i' w'))) =
              Some (JStr ''failed''))"
proof -
  have a: "\<forall>v. fst (getAnalysisResult parse i w) \<noteq> GetOk v"
    by (simp add: getAnalysisResult_missing [OF assms] split: option.splits)
  have b: "fst (next_outcome w) = None \<longrightarrow>
      fst (getAnalysisResult parse i w) = GetError ''Analysis not found''"
    by (simp add: getAnalysisResult_missing [OF assms])
  have c: "status_code (fst (get_result_route parse i w)) \<noteq> 200
    \<and> property ''success'' (body (fst (get_result_route parse i w))) = Some (JBool False)
    \<and> property ''status'' (body (fst (get_result_route parse i w))) = None"
    using error_response_shape by (simp add: route_missing [OF assms] property_def)
  have d: "uuidPattern_test i \<and> fst (next_outcome w) = None \<longrightarrow>
          status_code (fst (get_result_route parse i w)) = 404
          \<and> property ''error'' (body (fst (get_result_route parse i w))) =
              Some (JStr ''Analysis not found'')"
    by (simp add: route_missing [OF assms] error_response_def property_def)
  show ?thesis using a b c d route_failed by blast
qed

lemma uuid_samples: "uuidPattern_test sample_id" "uuidPattern_test other_id"
  by (simp_all add: uuidPattern_test_def sample_id_def other_id_def is_hex_def)

theorem not_found_is_never_shaped_like_failed_witness:
  "store (world_with [sample_id \<mapsto> sample_row ''failed'' None None]) other_id = None
   \<and> fst (getAnalysisResult sample_parse other_id
            (world_with [sample_id \<mapsto> sample_row ''failed'' None None])) =
       GetError ''Analysis not found''
   \<and> status_code (fst (get_result_route sample_parse other_id
            (world_with [sample_id \<mapsto> sample_row ''failed'' None None]))) = 404
   \<and> status_code (fst (get_result_route sample_parse sample_id
            (world_with [sample_id \<mapsto> sample_row ''failed'' None None]))) = 200
   \<and> property ''status'' (body (fst (get_result_route sample_parse sample_id
            (world_with [sample_id \<mapsto> sample_row ''failed'' None None])))) =
       Some (JStr ''failed'')"
proof -
  let ?w = "world_with [sample_id \<mapsto> sample_row ''failed'' None None]"
  have n: "store ?w other_id = None"
    by (simp add: world_with_def sample_id_def other_id_def)
  have s: "store ?w sample_id = Some (sample_row ''failed'' None None)"
    by (simp add: world_with_def)
  have st: "status (sample_row ''failed'' None None) = ''failed''"
    by (simp add: sample_row_def)
  have o: "fst (next_outcome ?w) = None" by (simp add: next_outcome_def world_with_def)
  show ?thesis
    using not_found_is_never_shaped_like_failed [OF n, of sample_parse] n s st o uuid_samples by blast
qed

section \<open>Properties of the orchestrator\<close>

lemma insertAnalysis_ok:
  assumes "db_outcomes w = []" "store w i = None"
  shows "insertAnalysis i u w =
           (Inr (), w\<lparr>store := (store w)(i \<mapsto> new_row i u (current_timestamp w)),
                      trace := trace w @ [DbInsert i u]\<rparr>)"
  using assms by (simp add: insertAnalysis_def next_outcome_def)

lemma updateStatus_ok:
  assumes "db_outcomes w = []"
  shows "updateStatus sf i st d w =
           (Inr (),
            w\<lparr>store :=
                (case store w i of
                   None \<Rightarrow> store w
                 | Some r \<Rightarrow> (store w)(i \<mapsto> set_columns sf st d (current_timestamp w) r)),
              trace := trace w @ [DbUpdate i st]\<rparr>)"
  using assms by (simp add: updateStatus_def next_outcome_def)

text \<open>
  Claim C1, where the code departs from it. In demo mode the \<open>return;\<close> of the
  \<open>finally\<close> block replaces whatever the \<open>try\<close> or the \<open>catch\<close> block was about to
  return: every demo run resolves with \<open>undefined\<close>, whatever the demo service, the
  store and the source reference are.
\<close>

theorem demo_run_returns_undefined:
  assumes "isDemoMode sv"
  shows "fst (startAnalysis sv youtubeUrl w) = Inr ReturnsUndefined"
  using assms
  by (simp add: startAnalysis_def finally_block_def Let_def split: prod.splits)

lemma demo_run_store:
  "map_option status
     (store (snd (startAnalysis
        (sample_services True (VideoFail ''unused'') (AudioFail ''unused'')
           (TranscribeFail ''unused'') 2000)
        ''https://youtu.be/abc123'' empty_world)) sample_id) = Some ''completed''"
  by (simp add: startAnalysis_def try_block_def demo_branch_def catch_block_def io_bind_def
      io_return_def io_throw_def log_event_def insertAnalysis_ok updateStatus_ok
      sample_services_def empty_world_def world_with_def new_row_def set_columns_def
      Let_def)

theorem demo_run_returns_undefined_witness:
  "isDemoMode (sample_services True (VideoFail ''unused'') (AudioFail ''unused'')
       (TranscribeFail ''unused'') 2000)
   \<and> fst (startAnalysis
        (sample_services True (VideoFail ''unused'') (AudioFail ''unused'')
           (TranscribeFail ''unused'') 2000)
        ''https://youtu.be/abc123'' empty_world) = Inr ReturnsUndefined
   \<and> map_option status
       (store (snd (startAnalysis
          (sample_services True (VideoFail ''unused'') (AudioFail ''unused'')
             (TranscribeFail ''unused'') 2000)
          ''https://youtu.be/abc123'' empty_world)) sample_id) = Some ''completed''"
proof -
  have d: "isDemoMode (sample_services True (VideoFail ''unused'') (AudioFail ''unused'')
       (TranscribeFail ''unused'') 2000)"
    by (simp add: sample_services_def)
  show ?thesis
    using demo_run_returns_undefined [OF d, of "''https://youtu.be/abc123''" empty_world] d demo_run_store
    by simp
qed

lemma capture_failure_run:
  "startAnalysis (capture_failure elapsed) ''https://youtu.be/abc123'' empty_world =
     (Inr (Failure sample_id
             ''Video processing failed: Failed to capture screenshot: Navigation timeout''
             elapsed),
      empty_world
        \<lparr>store :=
           [sample_id \<mapsto>
              (new_row sample_id ''https://youtu.be/abc123'' (current_timestamp empty_world))
                \<lparr>status := ''failed'',
                 error_message :=
                   Some ''Video processing failed: Failed to capture screenshot: Navigation timeout'',
                 processing_time := (if elapsed = 0 then None else Some elapsed)\<rparr>],
         trace :=
           [DbInsert sample_id ''https://youtu.be/abc123'', DbUpdate sample_id ''processing'',
            CallCapture, DbUpdate sample_id ''failed'']\<rparr>)"
  by (simp add: startAnalysis_def try_block_def real_branch_def catch_block_def io_bind_def
      io_return_def io_throw_def log_event_def insertAnalysis_ok updateStatus_ok
      finally_block_def capture_failure_def sample_services_def empty_world_def
      world_with_def new_row_def set_columns_def no_data_def truthy_str_def truthy_int_def
      Let_def)

text \<open>
  Claim C4, where the code departs from it. A run that fails within the same
  millisecond it started in has the elapsed time \<open>0\<close>; \<open>updateStatus\<close> writes
  \<open>processing_time\<close> only when the value is truthy, so the record reaches
  \<open>status = failed\<close> with its error message and with \<open>processing_time\<close> still \<open>NULL\<close>.
  With five milliseconds on the clock the same run stores \<open>5\<close>.
\<close>

theorem failed_record_without_processing_time:
  "fst (startAnalysis (capture_failure 0) ''https://youtu.be/abc123'' empty_world) =
     Inr (Failure sample_id
            ''Video processing failed: Failed to capture screenshot: Navigation timeout'' 0)
   \<and> map_option status
       (store (snd (startAnalysis (capture_failure 0) ''https://youtu.be/abc123'' empty_world))
          sample_id) = Some ''failed''
   \<and> map_option error_message
       (store (snd (startAnalysis (capture_failure 0) ''https://youtu.be/abc123'' empty_world))
          sample_id) =
       Some (Some ''Video processing failed: Failed to capture screenshot: Navigation timeout'')
   \<and> map_option processing_time
       (store (snd (startAnalysis (capture_failure 0) ''https://youtu.be/abc123'' empty_world))
          sample_id) = Some None
   \<and> map_option processing_time
       (store (snd (startAnalysis (capture_failure 5) ''https://youtu.be/abc123'' empty_world))
          sample_id) = Some (Some 5)"
  by (simp add: capture_failure_run)

lemma empty_world_setup: "db_outcomes empty_world = []" "store empty_world i = None"
  by (simp_all add: empty_world_def world_with_def)

lemma silent_results:
  "results_of silent_failure_post silent_failure_segments =
     [enhance (sample_segment ''hello'') (detection_of (DetectOk (4/5) ''ai'' 1 (JObj []))),
      enhance (sample_segment ''bye'') (detection_of (DetectFail [] JNull))]"
  by (simp add: results_of_def silent_failure_segments_def silent_failure_post_def
      process_segment_def sample_segment_def trim_samples detectAIProbability_def
      detector_ok_def or_num_def or_str_def or_json_def)

lemma silent_fanout:
  "processTranscriptionSegments silent_failure_post
     (Some (sample_transcript silent_failure_segments)) =
     Inr (FanoutOk (results_of silent_failure_post silent_failure_segments) (2/5) 2 2)"
proof -
  have h: "segments (sample_transcript silent_failure_segments) =
      SegmentsArray silent_failure_segments"
    by (simp add: sample_transcript_def)
  have ov: "overallAIProbability (results_of silent_failure_post silent_failure_segments) = 2/5"
    by (simp add: silent_results overallAIProbability_def validResults_def
        ai_detection_enhance detection_of_def truthy_str_def or_num_def)
  have n: "length silent_failure_segments = 2" by (simp add: silent_failure_segments_def)
  show ?thesis
    using fanout_on_array [OF h, of silent_failure_post] by (simp add: ov n)
qed

lemma silent_failure_setup:
  "\<not> isDemoMode silent_failure_services"
  "uuidv4 silent_failure_services = sample_id"
  "processVideo silent_failure_services u sample_id =
     VideoOk ''screenshots/shot.png'' ''audio/raw.webm''"
  "processAudio silent_failure_services p sample_id =
     AudioOk ''audio/out.wav'' (JObj []) (JObj [])"
  "transcribeAudio silent_failure_services p sample_id =
     TranscribeOk (sample_transcript silent_failure_segments)"
  "gptzero_post silent_failure_services = silent_failure_post"
  "stringify silent_failure_services = sample_stringify"
  by (simp_all add: silent_failure_services_def sample_services_def)

lemma silent_failure_run:
  "(\<exists>finalResult.
      fst (startAnalysis silent_failure_services ''https://youtu.be/abc123'' empty_world) =
        Inr (Success sample_id finalResult)
      \<and> res_ai_probabilities finalResult =
          JObj [(''overall_ai_probability'', JNum (2/5)), (''processed_segments'', JNum 2),
                (''total_segments'', JNum 2)])
   \<and> map_option status
       (store (snd (startAnalysis silent_failure_services ''https://youtu.be/abc123''
          empty_world)) sample_id) = Some ''completed''"
  by (simp add: silent_fanout silent_failure_setup empty_world_setup
      startAnalysis_def try_block_def real_branch_def audio_step_def
      transcribe_step_def detect_step_def prepare_final_result_def catch_block_def
      final_probabilities_def or_num_def
      io_bind_def io_return_def io_throw_def log_event_def insertAnalysis_ok updateStatus_ok
      finally_block_def new_row_def set_columns_def no_data_def truthy_str_def truthy_int_def
      Let_def)

text \<open>
  Claim C6, where the code departs from it. Two segments; the detection call of the
  second fails, and the error it is rejected with has the empty message. The
  iteration and the job go on: the fan-out returns a success with two of two segments
  processed, and the run completes. The failing segment is marked: its result has the
  \<open>error\<close> property. But it is not excluded from the aggregate: the overall
  probability is \<open>2/5\<close>, the mean over both results, where the results without the
  failing one give \<open>4/5\<close>; \<open>validResults\<close> keeps a result whose \<open>error\<close> is the empty
  string, because it tests the property for truthiness.
\<close>

theorem fanout_keeps_silent_failure_in_aggregate:
  "seg_text (silent_failure_segments ! 1) = JStr ''bye''
   \<and> detectAIProbability (silent_failure_post 1) (trim ''bye'') = DetectFail [] JNull
   \<and> processTranscriptionSegments silent_failure_post
        (Some (sample_transcript silent_failure_segments)) =
       Inr (FanoutOk (results_of silent_failure_post silent_failure_segments) (2/5) 2 2)
   \<and> map (\<lambda>r. error (ai_detection r))
         (results_of silent_failure_post silent_failure_segments) = [None, Some []]
   \<and> map has_error_marker (results_of silent_failure_post silent_failure_segments) =
       [False, True]
   \<and> validResults (results_of silent_failure_post silent_failure_segments) =
       results_of silent_failure_post silent_failure_segments
   \<and> overallAIProbability (without 1 (results_of silent_failure_post silent_failure_segments))
       = 4/5
   \<and> (\<exists>finalResult.
         fst (startAnalysis silent_failure_services ''https://youtu.be/abc123'' empty_world) =
           Inr (Success sample_id finalResult)
         \<and> res_ai_probabilities finalResult =
             JObj [(''overall_ai_probability'', JNum (2/5)), (''processed_segments'', JNum 2),
                   (''total_segments'', JNum 2)])
   \<and> map_option status
       (store (snd (startAnalysis silent_failure_services ''https://youtu.be/abc123''
          empty_world)) sample_id) = Some ''completed''"
proof -
  let ?rs = "results_of silent_failure_post silent_failure_segments"
  have t: "seg_text (silent_failure_segments ! 1) = JStr ''bye''"
    by (simp add: silent_failure_segments_def sample_segment_def)
  have f: "detectAIProbability (silent_failure_post 1) (trim ''bye'') = DetectFail [] JNull"
    by (simp add: detectAIProbability_def silent_failure_post_def or_json_def)
  have e: "map (\<lambda>r. error (ai_detection r)) ?rs = [None, Some []]"
    by (simp add: silent_results ai_detection_enhance detection_of_def)
  have m: "map has_error_marker ?rs = [False, True]"
    by (simp add: silent_results has_error_marker_def ai_detection_enhance detection_of_def)
  have v: "validResults ?rs = ?rs"
    by (simp add: silent_results validResults_def ai_detection_enhance detection_of_def
        truthy_str_def)
  have w: "overallAIProbability (without 1 ?rs) = 4/5"
    by (simp add: silent_results without_def overallAIProbability_def validResults_def
        ai_detection_enhance detection_of_def truthy_str_def or_num_def)
  show ?thesis
    using t f silent_fanout e m v w silent_failure_run by simp
qed






lemma quiet_refl: "quiet w w"
  by (simp add: quiet_def)

lemma quiet_trans: "quiet w w1 \<Longrightarrow> quiet w1 w2 \<Longrightarrow> quiet w w2"
  by (auto simp: quiet_def)

lemma quiet_return: "quiet w (snd (io_return x w))"
  by (simp add: io_return_def quiet_refl)

lemma quiet_throw: "quiet w (snd (io_throw msg w))"
  by (simp add: io_throw_def quiet_refl)

lemma quiet_log:
  "ev \<noteq> CallTranscribe \<Longrightarrow> ev \<noteq> CallDetect \<Longrightarrow> quiet w (snd (log_event ev w))"
  by (simp add: log_event_def quiet_def detection_payload_def)

lemma quiet_insert: "quiet w (snd (insertAnalysis i u w))"
  by (auto simp: insertAnalysis_def next_outcome_def db_error_def quiet_def
      detection_payload_def new_row_def split: list.splits option.splits)

lemma quiet_update:
  "\<not> truthy_str (aiProbabilities d) \<Longrightarrow> quiet w (snd (updateStatus sf i st d w))"
  by (auto simp: updateStatus_def next_outcome_def db_error_def quiet_def
      detection_payload_def set_columns_def split: list.splits option.splits)

lemma quiet_bind:
  assumes "\<And>w. quiet w (snd (m w))" and "\<And>x w. quiet w (snd (f x w))"
  shows "quiet w (snd (io_bind m f w))"
proof (cases "m w")
  case (Pair r w1)
  with assms(1) [of w] have q: "quiet w w1" by simp
  show ?thesis
  proof (cases r)
    case (Inl e)
    with Pair q show ?thesis by (simp add: io_bind_def)
  next
    case (Inr x)
    with Pair have "io_bind m f w = f x w1" by (simp add: io_bind_def)
    with q assms(2) [of w1 x] show ?thesis by (auto intro: quiet_trans)
  qed
qed

lemma no_data_payload: "\<not> truthy_str (aiProbabilities no_data)"
  "\<not> truthy_str (aiProbabilities (no_data\<lparr>screenshotPath := a\<rparr>))"
  "\<not> truthy_str (aiProbabilities (no_data\<lparr>errorMessage := b, processingTime := c\<rparr>))"
  by (simp_all add: no_data_def truthy_str_def)

lemma catch_block_quiet: "quiet w (snd (catch_block sv i msg w))"
  unfolding catch_block_def Let_def
  by (rule quiet_bind) (rule quiet_update, rule no_data_payload, rule quiet_return)

lemma real_branch_quiet:
  assumes "processVideo sv u i = VideoOk video_screenshot video_audio"
    and "processAudio sv video_audio i = AudioFail err"
  shows "quiet w (snd (real_branch sv u i w))"
  unfolding real_branch_def audio_step_def
  by (simp add: assms)
    (intro quiet_bind quiet_log quiet_update quiet_throw no_data_payload; simp)

lemma try_block_quiet:
  assumes "\<not> isDemoMode sv"
    and "processVideo sv u i = VideoOk video_screenshot video_audio"
    and "processAudio sv video_audio i = AudioFail err"
  shows "quiet w (snd (try_block sv u i w))"
  unfolding try_block_def
  by (simp add: assms(1))
    (intro quiet_bind quiet_insert quiet_update no_data_payload real_branch_quiet [OF assms(2,3)])

lemma startAnalysis_world:
  "snd (startAnalysis sv u w) =
     (case fst (try_block sv u (uuidv4 sv) w) of
        Inl msg \<Rightarrow> snd (catch_block sv (uuidv4 sv) msg (snd (try_block sv u (uuidv4 sv) w)))
      | Inr outcome \<Rightarrow> snd (try_block sv u (uuidv4 sv) w))"
  by (simp add: startAnalysis_def Let_def split: sum.splits prod.splits)

text \<open>
  Claim C7, as amended. In a real-mode run whose capture adapter succeeds and whose
  transcode adapter returns \<open>{success: false, error: err}\<close> (the claim's \<open>bad codec\<close> is
  one such \<open>err\<close>), whatever the store does, neither the transcription nor the detection
  is called and every stored detection payload stays as it was. When moreover the
  store executes every statement and has no row for the new identifier, the run
  returns a failure whose message ends with \<open>err\<close>, its events are the two initial
  writes, the capture, the write of its status, the transcode and the write of
  \<open>failed\<close>, and the record ends with the status \<open>failed\<close>, that message, and no
  transcription or detection payload.
\<close>

theorem transcode_failure_calls_no_later_stage:
  assumes "\<not> isDemoMode sv"
    and "processVideo sv youtubeUrl (uuidv4 sv) = VideoOk video_screenshot video_audio"
    and "processAudio sv video_audio (uuidv4 sv) = AudioFail err"
  shows "(\<exists>new. trace (snd (startAnalysis sv youtubeUrl w)) = trace w @ new
            \<and> CallTranscribe \<notin> set new \<and> CallDetect \<notin> set new)
    \<and> (\<forall>i. detection_payload (snd (startAnalysis sv youtubeUrl w)) i = detection_payload w i)
    \<and> (db_outcomes w = [] \<and> store w (uuidv4 sv) = None \<longrightarrow>
          fst (startAnalysis sv youtubeUrl w) =
            Inr (Failure (uuidv4 sv) (''Audio conversion failed: '' @ err)
                   (failTime sv - startTime sv))
          \<and> trace (snd (startAnalysis sv youtubeUrl w)) =
              trace w @
                [DbInsert (uuidv4 sv) youtubeUrl, DbUpdate (uuidv4 sv) ''processing'',
                 CallCapture, DbUpdate (uuidv4 sv) ''video_processed'', CallTranscode,
                 DbUpdate (uuidv4 sv) ''failed'']
          \<and> map_option status (store (snd (startAnalysis sv youtubeUrl w)) (uuidv4 sv)) =
              Some ''failed''
          \<and> map_option error_message
                (store (snd (startAnalysis sv youtubeUrl w)) (uuidv4 sv)) =
              Some (Some (''Audio conversion failed: '' @ err))
          \<and> map_option ai_probabilities
                (store (snd (startAnalysis sv youtubeUrl w)) (uuidv4 sv)) = Some None
          \<and> map_option transcription
                (store (snd (startAnalysis sv youtubeUrl w)) (uuidv4 sv)) = Some None)"
proof -
  let ?i = "uuidv4 sv"
  have t: "quiet w (snd (try_block sv youtubeUrl ?i w))"
    using assms by (rule try_block_quiet)
  have "quiet w (snd (startAnalysis sv youtubeUrl w))"
  proof (cases "fst (try_block sv youtubeUrl ?i w)")
    case (Inl msg)
    then show ?thesis
      using quiet_trans [OF t catch_block_quiet] by (simp add: startAnalysis_world)
  next
    case (Inr outcome)
    then show ?thesis using t by (simp add: startAnalysis_world)
  qed
  then have any_store: "(\<exists>new. trace (snd (startAnalysis sv youtubeUrl w)) = trace w @ new
        \<and> CallTranscribe \<notin> set new \<and> CallDetect \<notin> set new)
      \<and> (\<forall>i. detection_payload (snd (startAnalysis sv youtubeUrl w)) i = detection_payload w i)"
    by (simp add: quiet_def)
  have working_store: "fst (startAnalysis sv youtubeUrl w) =
            Inr (Failure ?i (''Audio conversion failed: '' @ err) (failTime sv - startTime sv))
      \<and> trace (snd (startAnalysis sv youtubeUrl w)) =
          trace w @
            [DbInsert ?i youtubeUrl, DbUpdate ?i ''processing'', CallCapture,
             DbUpdate ?i ''video_processed'', CallTranscode, DbUpdate ?i ''failed'']
      \<and> map_option status (store (snd (startAnalysis sv youtubeUrl w)) ?i) = Some ''failed''
      \<and> map_option error_message (store (snd (startAnalysis sv youtubeUrl w)) ?i) =
          Some (Some (''Audio conversion failed: '' @ err))
      \<and> map_option ai_probabilities (store (snd (startAnalysis sv youtubeUrl w)) ?i) = Some None
      \<and> map_option transcription (store (snd (startAnalysis sv youtubeUrl w)) ?i) = Some None"
    if "db_outcomes w = []" "store w ?i = None"
    using assms that
    by (simp add: startAnalysis_def try_block_def real_branch_def audio_step_def catch_block_def
        io_bind_def io_return_def io_throw_def log_event_def insertAnalysis_ok updateStatus_ok
        finally_block_def new_row_def set_columns_def no_data_def truthy_str_def truthy_int_def
        Let_def)
  show ?thesis using any_store working_store by blast
qed

lemma busy_world_setup:
  "db_outcomes busy_world = [None, None, None, Some ''SQLITE_BUSY: database is locked'']"
  "store busy_world i = None" "trace busy_world = []"
  by (simp_all add: busy_world_def empty_world_def world_with_def)

lemma bad_codec_setup:
  "\<not> isDemoMode bad_codec_services"
  "uuidv4 bad_codec_services = sample_id"
  "processVideo bad_codec_services u i = VideoOk ''screenshots/shot.png'' ''audio/raw.webm''"
  "processAudio bad_codec_services a i = AudioFail ''bad codec''"
  "failTime bad_codec_services - startTime bad_codec_services = 1200"
  by (simp_all add: bad_codec_services_def sample_services_def)

text \<open>
  Claim C7 as stated fails when the store refuses the \<open>UPDATE\<close> of the \<open>catch\<close> block.
  On a store that executes the first three statements of the run and refuses the fourth,
  the transcode adapter is called and returns \<open>bad codec\<close>, the error is caught, the write
  of \<open>failed\<close> is refused, and the promise of \<open>startAnalysis\<close> rejects with the store's
  error: the record keeps the status \<open>video_processed\<close> and has no error message.
\<close>

theorem transcode_failure_record_not_failed_counterexample:
  "processAudio bad_codec_services ''audio/raw.webm'' sample_id = AudioFail ''bad codec''
   \<and> fst (startAnalysis bad_codec_services ''https://youtu.be/abc123'' busy_world) =
       Inl ''SQLITE_BUSY: database is locked''
   \<and> trace (snd (startAnalysis bad_codec_services ''https://youtu.be/abc123'' busy_world)) =
       [DbInsert sample_id ''https://youtu.be/abc123'', DbUpdate sample_id ''processing'',
        CallCapture, DbUpdate sample_id ''video_processed'', CallTranscode,
        DbError ''SQLITE_BUSY: database is locked'']
   \<and> map_option status
       (store (snd (startAnalysis bad_codec_services ''https://youtu.be/abc123'' busy_world))
          sample_id) = Some ''video_processed''
   \<and> map_option error_message
       (store (snd (startAnalysis bad_codec_services ''https://youtu.be/abc123'' busy_world))
          sample_id) = Some None"
  by (simp add: startAnalysis_def try_block_def real_branch_def audio_step_def catch_block_def
      io_bind_def io_return_def io_throw_def log_event_def insertAnalysis_def updateStatus_def
      next_outcome_def db_error_def busy_world_setup bad_codec_setup
      finally_block_def new_row_def set_columns_def no_data_def truthy_str_def truthy_int_def
      Let_def)

theorem transcode_failure_calls_no_later_stage_witness:
  "\<not> isDemoMode bad_codec_services
   \<and> processVideo bad_codec_services ''https://youtu.be/abc123'' (uuidv4 bad_codec_services) =
       VideoOk ''screenshots/shot.png'' ''audio/raw.webm''
   \<and> processAudio bad_codec_services ''audio/raw.webm'' (uuidv4 bad_codec_services) =
       AudioFail ''bad codec''
   \<and> db_outcomes empty_world = []
   \<and> store empty_world (uuidv4 bad_codec_services) = None
   \<and> (\<exists>new. trace (snd (startAnalysis bad_codec_services ''https://youtu.be/abc123'' busy_world)) =
          trace busy_world @ new
        \<and> CallTranscribe \<notin> set new \<and> CallDetect \<notin> set new)
   \<and> detection_payload
       (snd (startAnalysis bad_codec_services ''https://youtu.be/abc123'' busy_world)) sample_id =
       None
   \<and> fst (startAnalysis bad_codec_services ''https://youtu.be/abc123'' empty_world) =
       Inr (Failure sample_id ''Audio conversion failed: bad codec'' 1200)
   \<and> trace (snd (startAnalysis bad_codec_services ''https://youtu.be/abc123'' empty_world)) =
       trace empty_world @
         [DbInsert sample_id ''https://youtu.be/abc123'', DbUpdate sample_id ''processing'',
          CallCapture, DbUpdate sample_id ''video_processed'', CallTranscode,
          DbUpdate sample_id ''failed'']
   \<and> map_option status
       (store (snd (startAnalysis bad_codec_services ''https://youtu.be/abc123'' empty_world))
          sample_id) = Some ''failed''
   \<and> map_option error_message
       (store (snd (startAnalysis bad_codec_services ''https://youtu.be/abc123'' empty_world))
          sample_id) = Some (Some ''Audio conversion failed: bad codec'')
   \<and> map_option ai_probabilities
       (store (snd (startAnalysis bad_codec_services ''https://youtu.be/abc123'' empty_world))
          sample_id) = Some None
   \<and> map_option transcription
       (store (snd (startAnalysis bad_codec_services ''https://youtu.be/abc123'' empty_world))
          sample_id) = Some None"
proof -
  have a: "\<not> isDemoMode bad_codec_services" by (rule bad_codec_setup)
  have d: "processVideo bad_codec_services ''https://youtu.be/abc123''
      (uuidv4 bad_codec_services) = VideoOk ''screenshots/shot.png'' ''audio/raw.webm''"
    by (rule bad_codec_setup)
  have e: "processAudio bad_codec_services ''audio/raw.webm'' (uuidv4 bad_codec_services) =
      AudioFail ''bad codec''"
    by (rule bad_codec_setup)
  have b: "db_outcomes empty_world = []" by (rule empty_world_setup)
  have c: "store empty_world (uuidv4 bad_codec_services) = None" by (rule empty_world_setup)
  have p: "detection_payload busy_world sample_id = None"
    by (simp add: detection_payload_def busy_world_setup)
  note busy = transcode_failure_calls_no_later_stage [of bad_codec_services
      "''https://youtu.be/abc123''" "''screenshots/shot.png''" "''audio/raw.webm''"
      "''bad codec''" busy_world, OF a d e]
  note working = transcode_failure_calls_no_later_stage [of bad_codec_services
      "''https://youtu.be/abc123''" "''screenshots/shot.png''" "''audio/raw.webm''"
      "''bad codec''" empty_world, OF a d e]
  have busy_trace: "\<exists>new. trace (snd (startAnalysis bad_codec_services ''https://youtu.be/abc123''
        busy_world)) = trace busy_world @ new
      \<and> CallTranscribe \<notin> set new \<and> CallDetect \<notin> set new"
    using busy by blast
  have busy_payload: "detection_payload
       (snd (startAnalysis bad_codec_services ''https://youtu.be/abc123'' busy_world)) sample_id =
       None"
    using busy p by simp
  have rest: "fst (startAnalysis bad_codec_services ''https://youtu.be/abc123'' empty_world) =
       Inr (Failure sample_id ''Audio conversion failed: bad codec'' 1200)
   \<and> trace (snd (startAnalysis bad_codec_services ''https://youtu.be/abc123'' empty_world)) =
       trace empty_world @
         [DbInsert sample_id ''https://youtu.be/abc123'', DbUpdate sample_id ''processing'',
          CallCapture, DbUpdate sample_id ''video_processed'', CallTranscode,
          DbUpdate sample_id ''failed'']
   \<and> map_option status
       (store (snd (startAnalysis bad_codec_services ''https://youtu.be/abc123'' empty_world))
          sample_id) = Some ''failed''
   \<and> map_option error_message
       (store (snd (startAnalysis bad_codec_services ''https://youtu.be/abc123'' empty_world))
          sample_id) = Some (Some ''Audio conversion failed: bad codec'')
   \<and> map_option ai_probabilities
       (store (snd (startAnalysis bad_codec_services ''https://youtu.be/abc123'' empty_world))
          sample_id) = Some None
   \<and> map_option transcription
       (store (snd (startAnalysis bad_codec_services ''https://youtu.be/abc123'' empty_world))
          sample_id) = Some None"
    using working b c by (simp add: bad_codec_setup)
  show ?thesis using a d e b c busy_trace busy_payload rest by blast
qed

section \<open>The order of writes and stage calls\<close>

lemma insertAnalysis_trace:
  "(fst (insertAnalysis i u w) = Inr ()
      \<and> trace (snd (insertAnalysis i u w)) = trace w @ [DbInsert i u])
   \<or> (\<exists>msg. fst (insertAnalysis i u w) = Inl msg
          \<and> trace (snd (insertAnalysis i u w)) = trace w @ [DbError msg])"
  by (auto simp: insertAnalysis_def next_outcome_def db_error_def split: list.splits option.splits)

lemma updateStatus_trace:
  "(fst (updateStatus sf i st d w) = Inr ()
      \<and> trace (snd (updateStatus sf i st d w)) = trace w @ [DbUpdate i st])
   \<or> (\<exists>msg. fst (updateStatus sf i st d w) = Inl msg
          \<and> trace (snd (updateStatus sf i st d w)) = trace w @ [DbError msg])"
  by (auto simp: updateStatus_def next_outcome_def db_error_def split: list.splits option.splits)

lemma updateStatus_extends: "\<exists>t. trace (snd (updateStatus sf i st d w)) = trace w @ t"
  using updateStatus_trace [of sf i st d w] by auto

lemma bind_extends:
  assumes "\<And>w. \<exists>t. trace (snd (m w)) = trace w @ t"
    and "\<And>x w. \<exists>t. trace (snd (f x w)) = trace w @ t"
  shows "\<exists>t. trace (snd (io_bind m f w)) = trace w @ t"
proof (cases "m w")
  case (Pair r w1)
  from assms(1) [of w] Pair obtain t1 where t1: "trace w1 = trace w @ t1" by auto
  show ?thesis
  proof (cases r)
    case (Inl e)
    with Pair t1 show ?thesis by (simp add: io_bind_def)
  next
    case (Inr x)
    from assms(2) [of x w1] obtain t2 where "trace (snd (f x w1)) = trace w1 @ t2" by auto
    with Pair Inr t1 show ?thesis by (simp add: io_bind_def)
  qed
qed

lemma log_then_extends:
  assumes "\<And>w. \<exists>t. trace (snd (f w)) = trace w @ t"
  shows "\<exists>t. trace (snd (io_bind (log_event ev) (\<lambda>_. f) w)) = trace w @ ev # t"
proof -
  from assms [of "w\<lparr>trace := trace w @ [ev]\<rparr>"]
  show ?thesis by (auto simp: io_bind_def log_event_def)
qed

lemma return_extends: "\<exists>t. trace (snd (io_return x w)) = trace w @ t"
  by (simp add: io_return_def)

lemma throw_extends: "\<exists>t. trace (snd (io_throw msg w)) = trace w @ t"
  by (simp add: io_throw_def)

lemma update_then_return_extends:
  "\<exists>t. trace (snd (io_bind (updateStatus sf i st d) (\<lambda>_. io_return x) w)) = trace w @ t"
  by (rule bind_extends) (rule updateStatus_extends, rule return_extends)

lemma demo_branch_trace:
  "\<exists>t. trace (snd (demo_branch sv u i w)) = trace w @ CallDemo # t"
  unfolding demo_branch_def
  by (rule log_then_extends)
    (auto simp: Let_def throw_extends update_then_return_extends split: demo_result.splits)

lemma prepare_final_result_extends:
  "\<exists>t. trace (snd (prepare_final_result sv u i sp wav oi wi tr res w)) = trace w @ t"
  unfolding prepare_final_result_def Let_def by (rule update_then_return_extends)

lemma detect_step_extends:
  "\<exists>t. trace (snd (detect_step sv u i sp wav oi wi tr w)) = trace w @ t"
proof -
  have "\<exists>t. trace (snd (detect_step sv u i sp wav oi wi tr w)) = trace w @ CallDetect # t"
    unfolding detect_step_def
    by (rule log_then_extends)
      (auto simp: throw_extends prepare_final_result_extends split: sum.splits)
  then show ?thesis by blast
qed

lemma transcribe_step_extends:
  "\<exists>t. trace (snd (transcribe_step sv u i sp wav oi wi w)) = trace w @ t"
proof -
  have "\<exists>t. trace (snd (transcribe_step sv u i sp wav oi wi w)) = trace w @ CallTranscribe # t"
    unfolding transcribe_step_def
    by (rule log_then_extends)
      (auto simp: throw_extends intro!: bind_extends updateStatus_extends detect_step_extends
        split: transcribe_result.splits)
  then show ?thesis by blast
qed

lemma audio_step_extends:
  "\<exists>t. trace (snd (audio_step sv u i sp ap w)) = trace w @ t"
proof -
  have "\<exists>t. trace (snd (audio_step sv u i sp ap w)) = trace w @ CallTranscode # t"
    unfolding audio_step_def
    by (rule log_then_extends)
      (auto simp: throw_extends intro!: bind_extends updateStatus_extends transcribe_step_extends
        split: audio_result.splits)
  then show ?thesis by blast
qed

lemma real_branch_trace:
  "\<exists>t. trace (snd (real_branch sv u i w)) = trace w @ CallCapture # t"
  unfolding real_branch_def
  by (rule log_then_extends)
    (auto simp: throw_extends intro!: bind_extends updateStatus_extends audio_step_extends
      split: video_result.splits)

lemma catch_block_trace:
  "\<exists>ev. trace (snd (catch_block sv i msg w)) = trace w @ [ev] \<and> \<not> is_stage ev"
  using updateStatus_trace [of "stringify sv" i "''failed''"
      "no_data\<lparr>errorMessage := Some msg, processingTime := Some (failTime sv - startTime sv)\<rparr>" w]
  by (cases "updateStatus (stringify sv) i ''failed''
        (no_data\<lparr>errorMessage := Some msg, processingTime := Some (failTime sv - startTime sv)\<rparr>) w")
    (auto simp: catch_block_def Let_def io_bind_def io_return_def is_stage_def)

lemma branch_trace:
  "\<exists>t. trace (snd ((if isDemoMode sv then demo_branch sv u i else real_branch sv u i) w)) =
         trace w @ (if isDemoMode sv then CallDemo else CallCapture) # t"
  using demo_branch_trace [of sv u i w] real_branch_trace [of sv u i w] by simp

lemma insertAnalysis_success:
  assumes "insertAnalysis i u w = (Inr (), w1)"
  shows "map_option status (store w1 i) = Some ''pending''"
    and "map_option youtube_url (store w1 i) = Some u"
    and "trace w1 = trace w @ [DbInsert i u]"
  using assms
  by (auto simp: insertAnalysis_def next_outcome_def db_error_def new_row_def
      split: list.splits option.splits if_splits)

lemma updateStatus_success:
  assumes "updateStatus sf i st d w1 = (Inr (), w2)" and "store w1 i \<noteq> None"
  shows "map_option status (store w2 i) = Some st"
    and "map_option youtube_url (store w2 i) = map_option youtube_url (store w1 i)"
    and "trace w2 = trace w1 @ [DbUpdate i st]"
  using assms
  by (auto simp: updateStatus_def next_outcome_def db_error_def set_columns_def
      split: list.splits option.splits)

lemma try_block_trace:
  "(\<exists>w1 w2 rest.
       insertAnalysis i u w = (Inr (), w1)
     \<and> map_option status (store w1 i) = Some ''pending''
     \<and> map_option youtube_url (store w1 i) = Some u
     \<and> updateStatus (stringify sv) i ''processing'' no_data w1 = (Inr (), w2)
     \<and> map_option status (store w2 i) = Some ''processing''
     \<and> map_option youtube_url (store w2 i) = Some u
     \<and> trace w2 = trace w @ [DbInsert i u, DbUpdate i ''processing'']
     \<and> try_block sv u i w =
         (if isDemoMode sv then demo_branch sv u i else real_branch sv u i) w2
     \<and> trace (snd (try_block sv u i w)) =
         trace w @ DbInsert i u # DbUpdate i ''processing''
                   # (if isDemoMode sv then CallDemo else CallCapture) # rest)
   \<or> ((\<exists>msg. fst (try_block sv u i w) = Inl msg)
        \<and> (\<exists>new. trace (snd (try_block sv u i w)) = trace w @ new \<and> \<not> list_ex is_stage new)
        \<and> \<not> (db_outcomes w = [] \<and> store w i = None))"
proof -
  obtain r1 w1 where ins: "insertAnalysis i u w = (r1, w1)" by (cases "insertAnalysis i u w")
  obtain r2 w2 where upd: "updateStatus (stringify sv) i ''processing'' no_data w1 = (r2, w2)"
    by (cases "updateStatus (stringify sv) i ''processing'' no_data w1")
  consider (insert_failed) msg where "r1 = Inl msg" "trace w1 = trace w @ [DbError msg]"
    | (update_failed) msg where "r1 = Inr ()" "trace w1 = trace w @ [DbInsert i u]"
        "r2 = Inl msg" "trace w2 = trace w1 @ [DbError msg]"
    | (written) "r1 = Inr ()" "trace w1 = trace w @ [DbInsert i u]"
        "r2 = Inr ()" "trace w2 = trace w1 @ [DbUpdate i ''processing'']"
    using insertAnalysis_trace [of i u w]
      updateStatus_trace [of "stringify sv" i "''processing''" no_data w1] ins upd
    by auto
  then show ?thesis
  proof cases
    case insert_failed
    have "\<not> (db_outcomes w = [] \<and> store w i = None)"
    proof
      assume "db_outcomes w = [] \<and> store w i = None"
      then have "insertAnalysis i u w =
          (Inr (), w\<lparr>store := (store w)(i \<mapsto> new_row i u (current_timestamp w)),
                     trace := trace w @ [DbInsert i u]\<rparr>)"
        by (simp add: insertAnalysis_ok)
      with ins insert_failed(1) show False by simp
    qed
    moreover have "try_block sv u i w = (Inl msg, w1)"
      using ins insert_failed(1) by (simp add: try_block_def io_bind_def)
    ultimately show ?thesis
      using insert_failed(2) by (simp add: is_stage_def)
  next
    case update_failed
    have "\<not> (db_outcomes w = [] \<and> store w i = None)"
    proof
      assume ok: "db_outcomes w = [] \<and> store w i = None"
      then have "insertAnalysis i u w =
          (Inr (), w\<lparr>store := (store w)(i \<mapsto> new_row i u (current_timestamp w)),
                     trace := trace w @ [DbInsert i u]\<rparr>)"
        by (simp add: insertAnalysis_ok)
      with ins ok have "db_outcomes w1 = []" by auto
      then show False using upd update_failed(3) by (simp add: updateStatus_ok)
    qed
    moreover have "try_block sv u i w = (Inl msg, w2)"
      using ins upd update_failed(1,3) by (simp add: try_block_def io_bind_def)
    ultimately show ?thesis
      using update_failed(2,4) by (simp add: is_stage_def)
  next
    case written
    have i1: "insertAnalysis i u w = (Inr (), w1)" using ins written(1) by simp
    have u1: "updateStatus (stringify sv) i ''processing'' no_data w1 = (Inr (), w2)"
      using upd written(3) by simp
    note s1 = insertAnalysis_success [OF i1]
    from s1(1) have ex: "store w1 i \<noteq> None" by auto
    note s2 = updateStatus_success [OF u1 ex]
    have tb: "try_block sv u i w =
        (if isDemoMode sv then demo_branch sv u i else real_branch sv u i) w2"
      using i1 u1 by (simp add: try_block_def io_bind_def)
    from branch_trace [of sv u i w2] obtain rest where
      "trace (snd ((if isDemoMode sv then demo_branch sv u i else real_branch sv u i) w2)) =
         trace w2 @ (if isDemoMode sv then CallDemo else CallCapture) # rest" by blast
    with tb s1(3) s2(3) have tr: "trace (snd (try_block sv u i w)) =
         trace w @ DbInsert i u # DbUpdate i ''processing''
                   # (if isDemoMode sv then CallDemo else CallCapture) # rest" by simp
    have w2: "trace w2 = trace w @ [DbInsert i u, DbUpdate i ''processing'']"
      using s1(3) s2(3) by simp
    have y2: "map_option youtube_url (store w2 i) = Some u" using s1(2) s2(2) by simp
    show ?thesis
      using i1 s1(1,2) u1 s2(1) y2 w2 tb tr by blast
  qed
qed

text \<open>
  Claim C9. The events of a run extend the trace, and whenever an external stage, real
  or simulated, is called in a run, then before it the store has executed the
  insertion, after which the record of the new identifier exists with the status
  \<open>pending\<close>, and then the update, after which that record has the status \<open>processing\<close>;
  the stages run from the state of the store that the update leaves, and the run's
  first two events are these two writes. If the store refuses one of the two writes, no
  stage is called. On a store that executes every statement and has no row for the new
  identifier, every run does both writes and then calls its first stage.
\<close>

theorem both_writes_precede_every_stage:
  "\<exists>new. trace (snd (startAnalysis sv youtubeUrl w)) = trace w @ new
     \<and> (list_ex is_stage new \<longrightarrow>
          (\<exists>w1 w2 rest.
              insertAnalysis (uuidv4 sv) youtubeUrl w = (Inr (), w1)
            \<and> map_option status (store w1 (uuidv4 sv)) = Some ''pending''
            \<and> map_option youtube_url (store w1 (uuidv4 sv)) = Some youtubeUrl
            \<and> updateStatus (stringify sv) (uuidv4 sv) ''processing'' no_data w1 = (Inr (), w2)
            \<and> map_option status (store w2 (uuidv4 sv)) = Some ''processing''
            \<and> map_option youtube_url (store w2 (uuidv4 sv)) = Some youtubeUrl
            \<and> trace w2 =
                trace w @ [DbInsert (uuidv4 sv) youtubeUrl, DbUpdate (uuidv4 sv) ''processing'']
            \<and> try_block sv youtubeUrl (uuidv4 sv) w =
                (if isDemoMode sv then demo_branch sv youtubeUrl (uuidv4 sv)
                 else real_branch sv youtubeUrl (uuidv4 sv)) w2
            \<and> new = DbInsert (uuidv4 sv) youtubeUrl # DbUpdate (uuidv4 sv) ''processing''
                      # (if isDemoMode sv then CallDemo else CallCapture) # rest))
     \<and> (db_outcomes w = [] \<and> store w (uuidv4 sv) = None \<longrightarrow>
          (\<exists>rest. new = DbInsert (uuidv4 sv) youtubeUrl
                         # DbUpdate (uuidv4 sv) ''processing''
                         # (if isDemoMode sv then CallDemo else CallCapture) # rest))"
proof -
  let ?i = "uuidv4 sv"
  obtain tried w' where t: "try_block sv youtubeUrl ?i w = (tried, w')"
    by (cases "try_block sv youtubeUrl ?i w")
  have run: "snd (startAnalysis sv youtubeUrl w) =
      (case tried of Inl msg \<Rightarrow> snd (catch_block sv ?i msg w') | Inr outcome \<Rightarrow> w')"
    using t by (simp add: startAnalysis_def Let_def split: sum.splits prod.splits)
  have after: "\<exists>t'. trace (snd (startAnalysis sv youtubeUrl w)) = trace w' @ t'
      \<and> \<not> list_ex is_stage t'"
  proof (cases tried)
    case (Inl msg)
    with run catch_block_trace [of sv ?i msg w'] show ?thesis by auto
  next
    case (Inr outcome)
    with run show ?thesis by simp
  qed
  then obtain t' where t': "trace (snd (startAnalysis sv youtubeUrl w)) = trace w' @ t'"
    "\<not> list_ex is_stage t'" by blast
  from try_block_trace [of ?i youtubeUrl w sv] t
  consider (staged) w1 w2 rest where
      "insertAnalysis ?i youtubeUrl w = (Inr (), w1)"
      "map_option status (store w1 ?i) = Some ''pending''"
      "map_option youtube_url (store w1 ?i) = Some youtubeUrl"
      "updateStatus (stringify sv) ?i ''processing'' no_data w1 = (Inr (), w2)"
      "map_option status (store w2 ?i) = Some ''processing''"
      "map_option youtube_url (store w2 ?i) = Some youtubeUrl"
      "trace w2 = trace w @ [DbInsert ?i youtubeUrl, DbUpdate ?i ''processing'']"
      "try_block sv youtubeUrl ?i w =
         (if isDemoMode sv then demo_branch sv youtubeUrl ?i
          else real_branch sv youtubeUrl ?i) w2"
      "trace w' = trace w @ DbInsert ?i youtubeUrl # DbUpdate ?i ''processing''
                    # (if isDemoMode sv then CallDemo else CallCapture) # rest"
    | (refused) new where "trace w' = trace w @ new" "\<not> list_ex is_stage new"
        "\<not> (db_outcomes w = [] \<and> store w ?i = None)"
    by auto
  then show ?thesis
  proof cases
    case staged
    let ?new = "DbInsert ?i youtubeUrl # DbUpdate ?i ''processing''
                    # (if isDemoMode sv then CallDemo else CallCapture) # (rest @ t')"
    have "trace (snd (startAnalysis sv youtubeUrl w)) = trace w @ ?new"
      using t' staged(9) by simp
    moreover have "\<exists>w1 w2 rest'.
              insertAnalysis ?i youtubeUrl w = (Inr (), w1)
            \<and> map_option status (store w1 ?i) = Some ''pending''
            \<and> map_option youtube_url (store w1 ?i) = Some youtubeUrl
            \<and> updateStatus (stringify sv) ?i ''processing'' no_data w1 = (Inr (), w2)
            \<and> map_option status (store w2 ?i) = Some ''processing''
            \<and> map_option youtube_url (store w2 ?i) = Some youtubeUrl
            \<and> trace w2 = trace w @ [DbInsert ?i youtubeUrl, DbUpdate ?i ''processing'']
            \<and> try_block sv youtubeUrl ?i w =
                (if isDemoMode sv then demo_branch sv youtubeUrl ?i
                 else real_branch sv youtubeUrl ?i) w2
            \<and> ?new = DbInsert ?i youtubeUrl # DbUpdate ?i ''processing''
                      # (if isDemoMode sv then CallDemo else CallCapture) # rest'"
      using staged(1-8) by blast
    moreover have "\<exists>rest'. ?new = DbInsert ?i youtubeUrl # DbUpdate ?i ''processing''
                         # (if isDemoMode sv then CallDemo else CallCapture) # rest'"
      by blast
    ultimately show ?thesis by blast
  next
    case refused
    with t' have "trace (snd (startAnalysis sv youtubeUrl w)) = trace w @ (new @ t')"
      "\<not> list_ex is_stage (new @ t')" by simp_all
    with refused(3) show ?thesis by blast
  qed
qed

theorem both_writes_precede_every_stage_witness:
  "db_outcomes empty_world = []
   \<and> store empty_world (uuidv4 bad_codec_services) = None
   \<and> (\<exists>w1 w2 rest.
         insertAnalysis sample_id ''https://youtu.be/abc123'' empty_world = (Inr (), w1)
       \<and> map_option status (store w1 sample_id) = Some ''pending''
       \<and> updateStatus sample_stringify sample_id ''processing'' no_data w1 = (Inr (), w2)
       \<and> map_option status (store w2 sample_id) = Some ''processing''
       \<and> try_block bad_codec_services ''https://youtu.be/abc123'' sample_id empty_world =
           real_branch bad_codec_services ''https://youtu.be/abc123'' sample_id w2
       \<and> trace (snd (startAnalysis bad_codec_services ''https://youtu.be/abc123''
                  empty_world)) =
           DbInsert sample_id ''https://youtu.be/abc123'' # DbUpdate sample_id ''processing''
             # CallCapture # rest)"
proof -
  have b: "db_outcomes empty_world = []" by (rule empty_world_setup)
  have c: "store empty_world (uuidv4 bad_codec_services) = None" by (rule empty_world_setup)
  have d: "\<not> isDemoMode bad_codec_services" "uuidv4 bad_codec_services = sample_id"
    "stringify bad_codec_services = sample_stringify"
    by (simp_all add: bad_codec_services_def sample_services_def)
  have e: "trace empty_world = []" by (simp add: empty_world_def world_with_def)
  from both_writes_precede_every_stage [of bad_codec_services "''https://youtu.be/abc123''"
      empty_world]
  obtain new where n:
    "trace (snd (startAnalysis bad_codec_services ''https://youtu.be/abc123'' empty_world)) = new"
    "list_ex is_stage new \<longrightarrow>
       (\<exists>w1 w2 rest.
           insertAnalysis sample_id ''https://youtu.be/abc123'' empty_world = (Inr (), w1)
         \<and> map_option status (store w1 sample_id) = Some ''pending''
         \<and> map_option youtube_url (store w1 sample_id) = Some ''https://youtu.be/abc123''
         \<and> updateStatus sample_stringify sample_id ''processing'' no_data w1 = (Inr (), w2)
         \<and> map_option status (store w2 sample_id) = Some ''processing''
         \<and> map_option youtube_url (store w2 sample_id) = Some ''https://youtu.be/abc123''
         \<and> trace w2 = [DbInsert sample_id ''https://youtu.be/abc123'',
                        DbUpdate sample_id ''processing'']
         \<and> try_block bad_codec_services ''https://youtu.be/abc123'' sample_id empty_world =
             real_branch bad_codec_services ''https://youtu.be/abc123'' sample_id w2
         \<and> new = DbInsert sample_id ''https://youtu.be/abc123''
                   # DbUpdate sample_id ''processing'' # CallCapture # rest)"
    "\<exists>rest. new = DbInsert sample_id ''https://youtu.be/abc123''
                   # DbUpdate sample_id ''processing'' # CallCapture # rest"
    using b c by (auto simp: d e)
  from n(3) have "list_ex is_stage new" by (auto simp: is_stage_def)
  with n(1,2) have "\<exists>w1 w2 rest.
         insertAnalysis sample_id ''https://youtu.be/abc123'' empty_world = (Inr (), w1)
       \<and> map_option status (store w1 sample_id) = Some ''pending''
       \<and> updateStatus sample_stringify sample_id ''processing'' no_data w1 = (Inr (), w2)
       \<and> map_option status (store w2 sample_id) = Some ''processing''
       \<and> try_block bad_codec_services ''https://youtu.be/abc123'' sample_id empty_world =
           real_branch bad_codec_services ''https://youtu.be/abc123'' sample_id w2
       \<and> trace (snd (startAnalysis bad_codec_services ''https://youtu.be/abc123''
                  empty_world)) =
           DbInsert sample_id ''https://youtu.be/abc123'' # DbUpdate sample_id ''processing''
             # CallCapture # rest"
    by blast
  with b c show ?thesis by blast
qed

end
